(* ===== verification/Prelude.thy ===== *)
theory Prelude
  imports Main "HOL-Library.Word"
begin

text \<open>
  Shared vocabulary of the sound-file codec model: bytes, the little-endian
  fixed-width fields of the WAVE format (\<open>bytes<N>\<close> with \<open>as_u()\<close> in the
  sources), ASCII tags, the file as a byte list read and written through a window,
  C++'s truncating integer division, and the error kinds of the codec.  Every
  component theory imports this one; the lemmas here are declared \<open>[simp]\<close> or
  collected in \<open>codec_simps\<close> so that the component proofs stay short.
\<close>

named_theorems codec_simps "equations that evaluate the codec's byte-level helpers"

type_synonym byte = "8 word"

section \<open>Errors of the codec\<close>

text \<open>
  One constructor per \<open>throw\<close> of \<^verbatim>\<open>src/src/util/soundfile.cpp\<close>, and the
  malformed-container error of the bounded chunk scan (spec 4.3).
  \<open>UnrecognizedFileType\<close> carries the offending tag, as the thrown message does.
\<close>

datatype error =
    UnrecognizedFileType "byte list"
  | UnsupportedAudioFormat
  | UnsupportedSampleSize
  | UnsupportedFileTypeRead
  | UnsupportedTypeWrite
  | MalformedContainer

text \<open>
  A C++ exception leaves the object it was thrown from in whatever state the
  code had reached; a stateful operation therefore returns either the error
  with that state, or its result with the new state.
\<close>

type_synonym ('s, 'a) exc = "(error \<times> 's) + ('a \<times> 's)"

text \<open>The outcome of an operation that returns nothing (\<open>void\<close>) but may throw.\<close>

type_synonym 's outcome = "(error \<times> 's) + 's"

section \<open>Little-endian fixed-width fields\<close>

primrec le_bytes :: "nat \<Rightarrow> nat \<Rightarrow> byte list" where
  "le_bytes 0 v = []"
| "le_bytes (Suc n) v = word_of_nat v # le_bytes n (v div 256)"

primrec le_nat :: "byte list \<Rightarrow> nat" where
  "le_nat [] = 0"
| "le_nat (b # bs) = unat b + 256 * le_nat bs"

definition enc_field :: "nat \<Rightarrow> 'a::len word \<Rightarrow> byte list" where
  "enc_field n w = le_bytes n (unat w)"

definition dec_field :: "byte list \<Rightarrow> 'a::len word" where
  "dec_field bs = word_of_nat (le_nat bs)"

text \<open>An ASCII tag such as \<open>''RIFF''\<close> as the bytes \<open>bytes<4>\<close> holds.\<close>

definition tag :: "string \<Rightarrow> byte list" where
  "tag s = map of_char s"

section \<open>C++ integer division\<close>

text \<open>\<open>/\<close> on \<open>int\<close> truncates towards zero; HOL's \<open>div\<close> rounds down.\<close>

definition cdiv :: "int \<Rightarrow> int \<Rightarrow> int" where
  "cdiv a b = sgn a * sgn b * (\<bar>a\<bar> div \<bar>b\<bar>)"

section \<open>Reading and writing a byte list through a window\<close>

text \<open>
  A read past the end of the file yields zero bytes: the \<open>bytes<N>\<close> buffer is
  zero-initialised and an input stream at its end leaves it untouched.  A write
  past the end extends the file, filling any gap with zeros; a write of no bytes
  changes nothing.
\<close>

definition byte_at :: "byte list \<Rightarrow> nat \<Rightarrow> byte" where
  "byte_at xs k = (if k < length xs then xs ! k else 0)"

definition window :: "nat \<Rightarrow> nat \<Rightarrow> byte list \<Rightarrow> byte list" where
  "window i n xs = map (byte_at xs) [i..<i + n]"

definition overwrite :: "nat \<Rightarrow> byte list \<Rightarrow> byte list \<Rightarrow> byte list" where
  "overwrite c bs xs =
     (if bs = [] then xs
      else let ys = xs @ replicate (c + length bs - length xs) 0
           in take c ys @ bs @ drop (c + length bs) ys)"

section \<open>Lemmas\<close>

subsection \<open>Fields\<close>

lemma length_le_bytes [simp]: "length (le_bytes n v) = n"
  by (induction n arbitrary: v) simp_all

lemma le_nat_le_bytes [simp]: "le_nat (le_bytes n v) = v mod 256 ^ n"
proof (induction n arbitrary: v)
  case 0
  then show ?case by simp
next
  case (Suc n)
  have "unat (word_of_nat v :: byte) = v mod 256"
    by (simp add: unat_of_nat)
  with Suc show ?case
    by (simp add: mod_mult2_eq)
qed

lemma length_enc_field [simp, codec_simps]: "length (enc_field n w) = n"
  by (simp add: enc_field_def)

lemma dec_enc_field [simp, codec_simps]:
  assumes "LENGTH('a) \<le> 8 * n"
  shows "(dec_field (enc_field n (w :: 'a::len word)) :: 'a word) = w"
proof -
  have "unat w < 2 ^ LENGTH('a)" by (rule unsigned_less)
  also have "(2::nat) ^ LENGTH('a) \<le> 2 ^ (8 * n)"
    using assms by (simp add: power_increasing)
  also have "(2::nat) ^ (8 * n) = 256 ^ n"
    by (simp add: power_mult)
  finally have "unat w mod 256 ^ n = unat w" by simp
  then show ?thesis
    by (simp add: enc_field_def dec_field_def)
qed

lemma length_tag [simp]: "length (tag s) = length s"
  by (simp add: tag_def)

lemma sint_word_of_int_small:
  assumes lo: "- (2 ^ (LENGTH('a) - 1)) \<le> x" and hi: "x < 2 ^ (LENGTH('a) - 1)"
  shows "sint (word_of_int x :: 'a::len word) = x"
proof -
  have n: "(2 :: int) ^ LENGTH('a) = 2 * 2 ^ (LENGTH('a) - 1)"
    using power_Suc [of "2::int" "LENGTH('a) - 1"] by simp
  have m: "(x + 2 ^ (LENGTH('a) - 1)) mod 2 ^ LENGTH('a) = x + 2 ^ (LENGTH('a) - 1)"
    using lo hi n by (intro mod_pos_pos_trivial) linarith+
  show ?thesis
    unfolding int_word_sint m by simp
qed

lemma uint_word_of_int_small [codec_simps]:
  "0 \<le> x \<Longrightarrow> x < 2 ^ LENGTH('a) \<Longrightarrow> uint (word_of_int x :: 'a::len word) = x"
  by (simp add: uint_word_of_int_eq take_bit_int_eq_self)

subsection \<open>Truncating division\<close>

lemma cdiv_nonneg [codec_simps]: "0 \<le> a \<Longrightarrow> 0 < b \<Longrightarrow> cdiv a b = a div b"
  by (cases "a = 0") (simp_all add: cdiv_def)

lemma cdiv_mult_self [codec_simps]: "0 < b \<Longrightarrow> cdiv (k * b) b = k"
proof -
  assume b: "0 < b"
  then have "\<bar>k * b\<bar> div \<bar>b\<bar> = \<bar>k\<bar>" by (simp add: abs_mult)
  with b show ?thesis
    by (cases k "0::int" rule: linorder_cases) (simp_all add: cdiv_def sgn_mult)
qed

lemma cdiv_small [codec_simps]: "\<bar>a\<bar> < \<bar>b\<bar> \<Longrightarrow> cdiv a b = 0"
  by (simp add: cdiv_def div_pos_pos_trivial)

lemma cdiv_neg: "0 < b \<Longrightarrow> a \<le> - b \<Longrightarrow> cdiv a b < 0"
proof -
  assume b: "0 < b" and a: "a \<le> - b"
  then have "0 < \<bar>a\<bar> div \<bar>b\<bar>"
    by (simp add: pos_imp_zdiv_pos_iff)
  with a b show ?thesis
    by (simp add: cdiv_def)
qed

subsection \<open>Windows\<close>

lemma length_window [simp]: "length (window i n xs) = n"
  by (simp add: window_def)

lemma nth_window [simp]: "k < n \<Longrightarrow> window i n xs ! k = byte_at xs (i + k)"
  by (simp add: window_def)

lemma window_add: "window i (m + n) xs = window i m xs @ window (i + m) n xs"
proof -
  have "[i..<i + (m + n)] = [i..<i + m] @ [i + m..<i + m + n]"
    using upt_add_eq_append [of i "i + m" n] by (simp add: add.assoc)
  then show ?thesis by (simp add: window_def add.assoc)
qed

lemma window_eqI:
  "(\<And>k. k < n \<Longrightarrow> byte_at xs (i + k) = byte_at ys (j + k)) \<Longrightarrow> window i n xs = window j n ys"
  by (rule nth_equalityI) simp_all

lemma byte_at_append:
  "byte_at (xs @ ys) k = (if k < length xs then xs ! k else byte_at ys (k - length xs))"
  by (auto simp: byte_at_def nth_append)

lemma window_append_right [simp]:
  "length xs \<le> i \<Longrightarrow> window i n (xs @ ys) = window (i - length xs) n ys"
  by (rule window_eqI) (simp add: byte_at_append)

lemma window_append_left [simp]:
  "i + n \<le> length xs \<Longrightarrow> window i n (xs @ ys) = window i n xs"
  by (rule window_eqI) (simp add: byte_at_def nth_append)

lemma window_whole [simp]: "window 0 (length xs) xs = xs"
  by (rule nth_equalityI) (simp_all add: byte_at_def)

lemma window_whole_n [simp]: "n = length xs \<Longrightarrow> window 0 n xs = xs"
  by simp

lemma length_overwrite [simp]:
  "bs \<noteq> [] \<Longrightarrow> length (overwrite c bs xs) = max (length xs) (c + length bs)"
  by (simp add: overwrite_def Let_def)

lemma overwrite_Nil [simp]: "overwrite c [] xs = xs"
  by (simp add: overwrite_def)

lemma byte_at_overwrite [codec_simps]:
  "byte_at (overwrite c bs xs) k =
     (if c \<le> k \<and> k < c + length bs then bs ! (k - c) else byte_at xs k)"
  by (auto simp: overwrite_def byte_at_def Let_def nth_append min_def nth_replicate)

lemma window_overwrite_same [simp]: "window c (length bs) (overwrite c bs xs) = bs"
  by (rule nth_equalityI) (simp_all add: byte_at_overwrite)

lemma window_overwrite_inside:
  "i + n \<le> length bs \<Longrightarrow> window (c + i) n (overwrite c bs xs) = take n (drop i bs)"
  by (rule nth_equalityI) (simp_all add: byte_at_overwrite add.assoc)

lemma enc_field_eq_Nil [simp]: "enc_field n w = [] \<longleftrightarrow> n = 0"
  by (metis length_enc_field length_0_conv)

lemma overwrite_prefix: "length bs = length ys \<Longrightarrow> overwrite 0 bs (ys @ zs) = bs @ zs"
  by (cases "bs = []") (simp_all add: overwrite_def Let_def)

lemma drop_overwrite:
  "bs \<noteq> [] \<Longrightarrow> drop (c + length bs) (overwrite c bs xs) = drop (c + length bs) xs"
  by (simp add: overwrite_def Let_def)

lemma window_Nil [simp]: "window i n [] = replicate n 0"
  by (rule nth_equalityI) (simp_all add: byte_at_def)

lemma window_take_drop: "i + n \<le> length xs \<Longrightarrow> window i n xs = take n (drop i xs)"
  by (rule nth_equalityI) (simp_all add: byte_at_def)

lemma le_nat_replicate_zero [simp]: "le_nat (replicate n 0) = 0"
  by (induction n) simp_all

end
