(* ===== verification/ByteFile.thy ===== *)
theory ByteFile
  imports Prelude
begin

text \<open>
  The byte-oriented file that \<open>SoundFile\<close> inherits from (\<open>ByteFile\<close>, spec 4.1;
  its sources \<^verbatim>\<open>util/bytefile.hpp\<close> are not among the repository's files, so it is
  modelled from the spec).  The file is its byte contents and a cursor.
  \<open>seek\<close> moves the cursor and returns the position reached, \<open>read_bytes\<close> and
  \<open>write_bytes\<close> advance it by the number of bytes transferred.  The record is
  extensible: \<open>SoundFile\<close> extends it, as the C++ class derives from \<open>ByteFile\<close>,
  so every operation here applies to a sound file too.
\<close>

record bytefile =
  contents :: "byte list"
  cursor :: nat

definition bf_position :: "'a bytefile_scheme \<Rightarrow> int" where
  "bf_position f = int (cursor f)"

definition bf_size :: "'a bytefile_scheme \<Rightarrow> int" where
  "bf_size f = int (length (contents f))"

text \<open>
  A seek to a negative position cannot be reached; the stream stays at the
  start, and the reached position 0 is returned.
\<close>

definition bf_seek :: "int \<Rightarrow> 'a bytefile_scheme \<Rightarrow> int \<times> 'a bytefile_scheme" where
  "bf_seek p f = (int (nat p), f\<lparr>cursor := nat p\<rparr>)"

definition read_bytes :: "nat \<Rightarrow> 'a bytefile_scheme \<Rightarrow> byte list \<times> 'a bytefile_scheme" where
  "read_bytes n f = (window (cursor f) n (contents f), f\<lparr>cursor := cursor f + n\<rparr>)"

definition write_bytes :: "byte list \<Rightarrow> 'a bytefile_scheme \<Rightarrow> 'a bytefile_scheme" where
  "write_bytes bs f =
     f\<lparr>contents := overwrite (cursor f) bs (contents f), cursor := cursor f + length bs\<rparr>"

text \<open>\<open>read_bytes(field)\<close> and \<open>write_bytes(field)\<close> on a \<open>bytes<n>\<close> field read through \<open>as_u()\<close>.\<close>

definition read_field :: "nat \<Rightarrow> 'a bytefile_scheme \<Rightarrow> 'w::len word \<times> 'a bytefile_scheme" where
  "read_field n f = (case read_bytes n f of (bs, f') \<Rightarrow> (dec_field bs, f'))"

definition write_field :: "nat \<Rightarrow> 'w::len word \<Rightarrow> 'a bytefile_scheme \<Rightarrow> 'a bytefile_scheme" where
  "write_field n w f = write_bytes (enc_field n w) f"

section \<open>Laws of the byte file\<close>

lemma read_bytes_eq [codec_simps]:
  "read_bytes n f = (window (cursor f) n (contents f), f\<lparr>cursor := cursor f + n\<rparr>)"
  by (simp add: read_bytes_def)

lemma read_field_eq [codec_simps]:
  "read_field n f = (dec_field (window (cursor f) n (contents f)), f\<lparr>cursor := cursor f + n\<rparr>)"
  by (simp add: read_field_def read_bytes_def)

lemma bf_seek_eq [codec_simps]: "bf_seek p f = (int (nat p), f\<lparr>cursor := nat p\<rparr>)"
  by (simp add: bf_seek_def)

lemma byte_at_eqI:
  "length xs = length ys \<Longrightarrow> (\<And>k. k < length xs \<Longrightarrow> byte_at xs k = byte_at ys k) \<Longrightarrow> xs = ys"
  by (rule nth_equalityI) (auto simp: byte_at_def)

text \<open>Two consecutive writes are one write of the concatenation.\<close>

lemma overwrite_overwrite:
  "overwrite (c + length bs) cs (overwrite c bs xs) = overwrite c (bs @ cs) xs"
proof (cases "bs = [] \<or> cs = []")
  case True
  then show ?thesis by auto
next
  case False
  show ?thesis
  proof (rule byte_at_eqI)
    show "length (overwrite (c + length bs) cs (overwrite c bs xs)) = length (overwrite c (bs @ cs) xs)"
      using False by simp
  next
    fix k
    show "byte_at (overwrite (c + length bs) cs (overwrite c bs xs)) k = byte_at (overwrite c (bs @ cs) xs) k"
      by (auto simp: byte_at_overwrite nth_append)
  qed
qed

lemma write_bytes_write_bytes [codec_simps]:
  "write_bytes cs (write_bytes bs f) = write_bytes (bs @ cs) f"
  by (simp add: write_bytes_def overwrite_overwrite add.assoc)

lemma write_field_eq [codec_simps]: "write_field n w f = write_bytes (enc_field n w) f"
  by (simp add: write_field_def)

lemma write_bytes_eq:
  "write_bytes bs f =
     f\<lparr>contents := overwrite (cursor f) bs (contents f), cursor := cursor f + length bs\<rparr>"
  by (simp add: write_bytes_def)
text \<open>Reading a field off the front of a window that holds its encoding.\<close>

lemma read_field_prefix:
  assumes w: "window (cursor f) (n + m) (contents f) = enc_field n (v :: 'w::len word) @ rest"
    and len: "LENGTH('w) \<le> 8 * n"
  shows "read_field n f = (v, f\<lparr>cursor := cursor f + n\<rparr>)"
    and "window (cursor f + n) m (contents f) = rest"
proof -
  have "window (cursor f) n (contents f) @ window (cursor f + n) m (contents f) = enc_field n v @ rest"
    using w by (simp add: window_add)
  then have a: "window (cursor f) n (contents f) = enc_field n v"
    and b: "window (cursor f + n) m (contents f) = rest"
    by (simp_all add: append_eq_append_conv)
  from a len show "read_field n f = (v, f\<lparr>cursor := cursor f + n\<rparr>)"
    by (simp add: read_field_eq)
  from b show "window (cursor f + n) m (contents f) = rest" .
qed

lemma bf_seek_zero [simp]: "snd (bf_seek 0 s) = s\<lparr>cursor := 0\<rparr>"
  by (simp add: bf_seek_eq)

lemma write_bytes_Nil [simp]: "write_bytes [] f = f"
  by (simp add: write_bytes_def)

lemma fold_write_bytes:
  "(\<And>x f. wr x f = write_bytes (g x) f) \<Longrightarrow> fold wr xs f = write_bytes (concat (map g xs)) f"
  by (induction xs arbitrary: f) (simp_all add: write_bytes_write_bytes)

end
