(* ===== verification/Chunk.thy ===== *)
theory Chunk
  imports ByteFile
begin

text \<open>
  Chunks (spec 4.2) and the container header (spec 4.3, \<open>struct Header\<close> of
  \<^verbatim>\<open>src/src/util/soundfile.cpp\<close>).  A generic chunk is its 4-byte tag
  (\<open>id\<close>), its 4-byte little-endian payload size and the byte offset of its tag.
  The C++ class hierarchy below \<open>Chunk\<close> (\<open>WAVE_fmt\<close>, \<open>WAVE_data\<close>, the
  embedder's custom chunks) is the closed variant \<open>chunk_kind\<close>; a chunk object
  is the generic part with its kind.  \<open>ByteFile::Chunk::read\<close> and
  \<open>ByteFile::for_chunks_in_range\<close> are not in the sources and follow the spec.
\<close>

record chunk =
  id_field :: "byte list"
  size_field :: "32 word"
  offset :: nat

datatype 'c chunk_kind = Generic | Wave_fmt | Wave_data | Custom 'c

type_synonym 'c chunk_obj = "chunk \<times> 'c chunk_kind"

text \<open>The end of a chunk: its header of 8 bytes and its payload.\<close>

definition chunk_end :: "chunk \<Rightarrow> nat" where
  "chunk_end c = offset c + 8 + unat (size_field c)"

text \<open>\<open>Chunk(const char* id)\<close>: a fresh chunk with the given tag and zero size.\<close>

definition new_chunk :: "string \<Rightarrow> chunk" where
  "new_chunk s = \<lparr>id_field = tag s, size_field = 0, offset = 0\<rparr>"

text \<open>\<open>Chunk::read\<close> up to \<open>read_fields\<close>: record the offset, read tag and size.\<close>

definition chunk_read :: "'a bytefile_scheme \<Rightarrow> chunk \<times> 'a bytefile_scheme" where
  "chunk_read f =
     (case read_bytes 4 f of (i, f1) \<Rightarrow>
      case read_field 4 f1 of (s, f2) \<Rightarrow>
        (\<lparr>id_field = i, size_field = s, offset = cursor f\<rparr>, f2))"

text \<open>\<open>Chunk::write\<close> up to \<open>write_fields\<close>: record the offset, write tag and size.\<close>

definition chunk_write :: "chunk \<Rightarrow> 'a bytefile_scheme \<Rightarrow> chunk \<times> 'a bytefile_scheme" where
  "chunk_write c f =
     (c\<lparr>offset := cursor f\<rparr>, write_field 4 (size_field c) (write_bytes (id_field c) f))"

text \<open>
  \<open>for_chunks_in_range(start, end, cb)\<close>: read a generic chunk at the current
  position, hand it to the callback (which in \<open>Header::read_fields\<close> appends a
  copy to \<open>chunks\<close>), skip its payload, and stop at \<open>end\<close>; a chunk whose
  declared extent crosses \<open>end\<close> is a malformed container.
\<close>

function scan_chunks :: "nat \<Rightarrow> nat \<Rightarrow> 'a bytefile_scheme \<Rightarrow> ('a bytefile_scheme, chunk list) exc" where
  "scan_chunks pos e f =
     (if e \<le> pos then Inr ([], f)
      else (case chunk_read (f\<lparr>cursor := pos\<rparr>) of (c, f') \<Rightarrow>
              if e < chunk_end c then Inl (MalformedContainer, f')
              else (case scan_chunks (chunk_end c) e f' of
                      Inl err \<Rightarrow> Inl err
                    | Inr (cs, f'') \<Rightarrow> Inr (c # cs, f''))))"
  by pat_completeness auto

termination scan_chunks
  by (relation "measure (\<lambda>(pos, e, f). e - pos)")
     (auto simp: chunk_end_def chunk_read_def read_bytes_def read_field_def split: prod.splits)

section \<open>The container header\<close>

record 'c header = chunk +
  format :: "byte list"
  chunks :: "'c chunk_obj list"

text \<open>
  \<open>Header() = default\<close> (line 10): zero tag, zero size, offset 0, zero format
  tag and no children.
\<close>

definition header_default :: "'c header" where
  "header_default =
     \<lparr>id_field = replicate 4 0, size_field = 0, offset = 0, format = replicate 4 0, chunks = []\<rparr>"

declare header_default_def [simp]

text \<open>
  \<open>Header::read\<close>: \<open>Chunk::read\<close> of tag and size, then \<open>read_fields\<close>: the
  format tag and the scan of \<open>[offset + 12, offset + 8 + size)\<close>; the children are
  kept as generic chunks.
\<close>

definition header_read :: "'a bytefile_scheme \<Rightarrow> ('a bytefile_scheme, 'c header) exc" where
  "header_read f =
     (case chunk_read f of (c, f1) \<Rightarrow>
      case read_bytes 4 f1 of (fm, f2) \<Rightarrow>
      case scan_chunks (offset c + 12) (offset c + 8 + unat (size_field c)) f2 of
        Inl err \<Rightarrow> Inl err
      | Inr (cs, f3) \<Rightarrow>
          Inr (\<lparr>id_field = id_field c, size_field = size_field c, offset = offset c,
                 format = fm, chunks = map (\<lambda>c. (c, Generic)) cs\<rparr>, f3))"

text \<open>
  \<open>Header::write\<close>: \<open>Chunk::write\<close> of tag and size, then \<open>write_fields\<close>: the
  format tag and each child in sequence order.  A child writes itself through
  its own virtual \<open>write\<close>, the parameter \<open>wr\<close>.
\<close>

definition header_write ::
  "('c chunk_obj \<Rightarrow> 'a bytefile_scheme \<Rightarrow> 'a bytefile_scheme) \<Rightarrow> 'c header \<Rightarrow>
   'a bytefile_scheme \<Rightarrow> 'a bytefile_scheme" where
  "header_write wr h f =
     fold wr (chunks h) (write_bytes (format h) (snd (chunk_write (chunk.truncate h) f)))"

text \<open>
  \<open>Chunk::write\<close> of a child that is a plain \<open>Chunk\<close>: its tag and size, and no
  type-specific fields (the payload of a generic chunk is not kept, spec 4.2).
\<close>

definition generic_write :: "'c chunk_obj \<Rightarrow> 'a bytefile_scheme \<Rightarrow> 'a bytefile_scheme" where
  "generic_write co f = snd (chunk_write (fst co) f)"

section \<open>Specification of the on-disk chunk layout\<close>

text \<open>
  The format of spec 6, written as an encoder: a chunk is its tag, its payload
  length as a 4-byte little-endian size, and its payload; a sequence of chunks is
  the concatenation; a container is a tag, the size \<open>4 + children\<close>, the format
  tag and the children.  \<open>layout_chunks\<close> is the list of generic chunks the
  encoding holds at a given offset, \<open>boundaries\<close> the offsets where its chunks end,
  and \<open>tiles p cs e\<close> says that \<open>cs\<close> cover \<open>[p, e)\<close> back to back.
  \<open>chunk_at\<close> is the generic chunk whose header starts at a byte position.
\<close>

definition chunk_at :: "nat \<Rightarrow> byte list \<Rightarrow> chunk" where
  "chunk_at p xs =
     \<lparr>id_field = window p 4 xs, size_field = dec_field (window (p + 4) 4 xs), offset = p\<rparr>"

fun tiles :: "nat \<Rightarrow> chunk list \<Rightarrow> nat \<Rightarrow> bool" where
  "tiles p [] e = (e \<le> p)"
| "tiles p (c # cs) e = (offset c = p \<and> p < e \<and> chunk_end c \<le> e \<and> tiles (chunk_end c) cs e)"

definition chunk_bytes :: "byte list \<times> byte list \<Rightarrow> byte list" where
  "chunk_bytes tp = fst tp @ enc_field 4 (word_of_nat (length (snd tp)) :: 32 word) @ snd tp"

definition layout :: "(byte list \<times> byte list) list \<Rightarrow> byte list" where
  "layout ps = concat (map chunk_bytes ps)"

fun layout_chunks :: "nat \<Rightarrow> (byte list \<times> byte list) list \<Rightarrow> chunk list" where
  "layout_chunks p [] = []"
| "layout_chunks p ((t, q) # ps) =
     \<lparr>id_field = t, size_field = word_of_nat (length q), offset = p\<rparr> # layout_chunks (p + 8 + length q) ps"

fun boundaries :: "nat \<Rightarrow> (byte list \<times> byte list) list \<Rightarrow> nat list" where
  "boundaries p [] = []"
| "boundaries p ((t, q) # ps) = (p + 8 + length q) # boundaries (p + 8 + length q) ps"

definition well_formed_chunks :: "(byte list \<times> byte list) list \<Rightarrow> bool" where
  "well_formed_chunks ps = list_all (\<lambda>(t, q). length t = 4 \<and> length q < 2 ^ 32) ps"

definition container_bytes ::
  "byte list \<Rightarrow> byte list \<Rightarrow> (byte list \<times> byte list) list \<Rightarrow> byte list" where
  "container_bytes t fm ps =
     t @ enc_field 4 (word_of_nat (4 + length (layout ps)) :: 32 word) @ fm @ layout ps"

section \<open>Reading chunks\<close>

declare scan_chunks.simps [simp del]

lemma chunk_read_eq:
  "chunk_read f = (chunk_at (cursor f) (contents f), f\<lparr>cursor := cursor f + 8\<rparr>)"
  by (simp add: chunk_read_def chunk_at_def read_bytes_def read_field_def)

lemma scan_chunks_step:
  "scan_chunks pos e f =
     (if e \<le> pos then Inr ([], f)
      else let c = chunk_at pos (contents f); f' = f\<lparr>cursor := pos + 8\<rparr> in
           if e < chunk_end c then Inl (MalformedContainer, f')
           else (case scan_chunks (chunk_end c) e f' of
                   Inl err \<Rightarrow> Inl err
                 | Inr (cs, f'') \<Rightarrow> Inr (c # cs, f'')))"
  by (subst scan_chunks.simps) (simp add: chunk_read_eq Let_def)

lemma scan_chunks_tiles:
  "scan_chunks pos e f = Inr (cs, f') \<Longrightarrow> tiles pos cs e"
proof (induction pos e f arbitrary: cs f' rule: scan_chunks.induct)
  case (1 pos e f)
  note step = scan_chunks_step [of pos e f]
  show ?case
  proof (cases "e \<le> pos")
    case True
    with "1.prems" step show ?thesis by simp
  next
    case False
    let ?c = "chunk_at pos (contents f)"
    from False "1.prems" step obtain cs' where
      le: "chunk_end ?c \<le> e" and
      rest: "scan_chunks (chunk_end ?c) e (f\<lparr>cursor := pos + 8\<rparr>) = Inr (cs', f')" and
      cs: "cs = ?c # cs'"
      by (auto simp: Let_def split: if_splits sum.splits prod.splits)
    have "tiles (chunk_end ?c) cs' e"
      using "1.IH" [of ?c "f\<lparr>cursor := pos + 8\<rparr>"] False le rest
      by (simp add: chunk_read_eq)
    with False le cs show ?thesis by (simp add: chunk_at_def)
  qed
qed

lemma window_append_eq:
  "window i (length a + length b) xs = a @ b \<Longrightarrow>
   window i (length a) xs = a \<and> window (i + length a) (length b) xs = b"
  by (simp add: window_add)

lemma length_layout_Cons [simp]:
  "length (layout ((t, q) # ps)) = length t + 4 + length q + length (layout ps)"
  by (simp add: layout_def chunk_bytes_def)

lemma chunk_at_layout:
  assumes "length t = 4" and "length q < 2 ^ 32"
    and "window p (length (layout ((t, q) # ps))) xs = layout ((t, q) # ps)"
  shows "chunk_at p xs = \<lparr>id_field = t, size_field = word_of_nat (length q), offset = p\<rparr>"
    and "window (p + 8 + length q) (length (layout ps)) xs = layout ps"
    and "unat (word_of_nat (length q) :: 32 word) = length q"
proof -
  have split: "window p (length t + length (enc_field 4 (word_of_nat (length q) :: 32 word) @ q @ layout ps)) xs
      = t @ (enc_field 4 (word_of_nat (length q) :: 32 word) @ q @ layout ps)"
    using assms(1,3) by (simp add: layout_def chunk_bytes_def add.assoc)
  from window_append_eq [OF split] assms(1) have t: "window p 4 xs = t"
    and r1: "window (p + 4) (length (enc_field 4 (word_of_nat (length q) :: 32 word)) + length (q @ layout ps)) xs
         = enc_field 4 (word_of_nat (length q) :: 32 word) @ q @ layout ps"
    by simp_all
  from window_append_eq [OF r1] have s: "window (p + 4) 4 xs = enc_field 4 (word_of_nat (length q) :: 32 word)"
    and r2: "window (p + 8) (length q + length (layout ps)) xs = q @ layout ps"
    by (simp_all add: add.assoc)
  from window_append_eq [OF r2] show "window (p + 8 + length q) (length (layout ps)) xs = layout ps"
    by simp
  show u: "unat (word_of_nat (length q) :: 32 word) = length q"
    using assms(2) by (simp add: unat_of_nat)
  show "chunk_at p xs = \<lparr>id_field = t, size_field = word_of_nat (length q), offset = p\<rparr>"
    using t s by (simp add: chunk_at_def)
qed

lemma scan_chunks_layout:
  "well_formed_chunks ps \<Longrightarrow>
   window pos (length (layout ps)) (contents f) = layout ps \<Longrightarrow>
   \<exists>f'. scan_chunks pos (pos + length (layout ps)) f = Inr (layout_chunks pos ps, f')"
proof (induction ps arbitrary: pos f)
  case Nil
  then show ?case by (simp add: scan_chunks_step layout_def)
next
  case (Cons tq ps)
  obtain t q where tq: "tq = (t, q)" by fastforce
  with Cons.prems have wf: "length t = 4" "length q < 2 ^ 32" "well_formed_chunks ps"
    by (simp_all add: well_formed_chunks_def)
  note at = chunk_at_layout [OF wf(1,2) Cons.prems(2) [unfolded tq]]
  let ?f = "f\<lparr>cursor := pos + 8\<rparr>"
  from Cons.IH [OF wf(3), of "pos + 8 + length q" ?f] at(2) obtain f' where
    "scan_chunks (pos + 8 + length q) (pos + 8 + length q + length (layout ps)) ?f = Inr (layout_chunks (pos + 8 + length q) ps, f')"
    by auto
  then show ?case
    using wf(1) at(1,3) by (simp add: tq scan_chunks_step [of pos] chunk_end_def add.assoc)
qed

lemma scan_chunks_cut:
  "well_formed_chunks ps \<Longrightarrow>
   window pos (length (layout ps)) (contents f) = layout ps \<Longrightarrow>
   pos < e \<Longrightarrow> e < pos + length (layout ps) \<Longrightarrow> e \<notin> set (boundaries pos ps) \<Longrightarrow>
   \<exists>f'. scan_chunks pos e f = Inl (MalformedContainer, f')"
proof (induction ps arbitrary: pos f)
  case Nil
  then show ?case by (simp add: layout_def)
next
  case (Cons tq ps)
  obtain t q where tq: "tq = (t, q)" by fastforce
  with Cons.prems have wf: "length t = 4" "length q < 2 ^ 32" "well_formed_chunks ps"
    by (simp_all add: well_formed_chunks_def)
  note at = chunk_at_layout [OF wf(1,2) Cons.prems(2) [unfolded tq]]
  let ?f = "f\<lparr>cursor := pos + 8\<rparr>"
  show ?case
  proof (cases "e < pos + 8 + length q")
    case True
    then show ?thesis
      using Cons.prems(3) at(1,3) by (simp add: scan_chunks_step [of pos] chunk_end_def)
  next
    case False
    with Cons.prems(5) tq have gt: "pos + 8 + length q < e" and nb: "e \<notin> set (boundaries (pos + 8 + length q) ps)"
      by auto
    have "e < pos + 8 + length q + length (layout ps)"
      using Cons.prems(4) wf(1) tq by simp
    with Cons.IH [of "pos + 8 + length q" ?f] wf(3) at(2) gt nb obtain f' where
      "scan_chunks (pos + 8 + length q) e ?f = Inl (MalformedContainer, f')"
      by auto
    then show ?thesis
      using Cons.prems(3) gt at(1,3) by (simp add: scan_chunks_step [of pos] chunk_end_def)
  qed
qed

lemma header_read_eq:
  "header_read f =
     (case scan_chunks (cursor f + 12) (cursor f + 8 + unat (dec_field (window (cursor f + 4) 4 (contents f)) :: 32 word))
             (f\<lparr>cursor := cursor f + 12\<rparr>) of
        Inl err \<Rightarrow> Inl err
      | Inr (cs, f3) \<Rightarrow>
          Inr (\<lparr>id_field = window (cursor f) 4 (contents f),
                 size_field = dec_field (window (cursor f + 4) 4 (contents f)), offset = cursor f,
                 format = window (cursor f + 8) 4 (contents f), chunks = map (\<lambda>c. (c, Generic)) cs\<rparr>, f3))"
  by (simp add: header_read_def chunk_read_eq read_bytes_def chunk_at_def ac_simps split: sum.split prod.split)

lemma window_append4:
  assumes "window p (length (a @ b @ c @ d)) xs = a @ b @ c @ d"
  shows "window p (length a) xs = a" and "window (p + length a) (length b) xs = b"
    and "window (p + length a + length b) (length c) xs = c"
    and "window (p + length a + length b + length c) (length d) xs = d"
proof -
  have "window p (length a + length (b @ c @ d)) xs = a @ (b @ c @ d)"
    using assms by simp
  from window_append_eq [OF this] have a: "window p (length a) xs = a"
    and r1: "window (p + length a) (length b + length (c @ d)) xs = b @ (c @ d)"
    by simp_all
  from window_append_eq [OF r1] have b: "window (p + length a) (length b) xs = b"
    and r2: "window (p + length a + length b) (length c + length d) xs = c @ d"
    by simp_all
  from window_append_eq [OF r2] a b show "window p (length a) xs = a"
    and "window (p + length a) (length b) xs = b"
    and "window (p + length a + length b) (length c) xs = c"
    and "window (p + length a + length b + length c) (length d) xs = d"
    by simp_all
qed

lemma header_read_container:
  assumes wf: "well_formed_chunks ps" and t: "length t = 4" and fm: "length fm = 4"
    and sz: "4 + length (layout ps) < 2 ^ 32"
    and img: "window (cursor f) (length (container_bytes t fm ps)) (contents f) = container_bytes t fm ps"
  shows "\<exists>f'. header_read f =
           Inr (\<lparr>id_field = t, size_field = word_of_nat (4 + length (layout ps)), offset = cursor f,
                  format = fm, chunks = map (\<lambda>c. (c, Generic)) (layout_chunks (cursor f + 12) ps)\<rparr>, f')"
proof -
  let ?p = "cursor f" and ?xs = "contents f"
  let ?s = "enc_field 4 (word_of_nat (4 + length (layout ps)) :: 32 word)"
  note w = window_append4 [of ?p t ?s fm "layout ps" ?xs]
  have img': "window ?p (length (t @ ?s @ fm @ layout ps)) ?xs = t @ ?s @ fm @ layout ps"
    using img by (simp add: container_bytes_def)
  have u: "unat (word_of_nat (4 + length (layout ps)) :: 32 word) = 4 + length (layout ps)"
    using sz by (simp del: of_nat_add add: unat_of_nat)
  have w4: "window (?p + 12) (length (layout ps)) ?xs = layout ps"
    using w(4) [OF img'] t fm by (simp add: add.commute)
  from scan_chunks_layout [OF wf, of "?p + 12" "f\<lparr>cursor := ?p + 12\<rparr>"] w4 obtain f' where
    "scan_chunks (?p + 12) (?p + 12 + length (layout ps)) (f\<lparr>cursor := ?p + 12\<rparr>) = Inr (layout_chunks (?p + 12) ps, f')"
    by auto
  then show ?thesis
    using w(1-3) [OF img'] t fm u by (simp add: header_read_eq chunk_at_def add.assoc)
qed

lemma scan_chunks_frame: "scan_chunks pos e f = Inr (cs, f') \<Longrightarrow> f' = f\<lparr>cursor := cursor f'\<rparr>"
proof (induction pos e f arbitrary: cs f' rule: scan_chunks.induct)
  case (1 pos e f)
  note step = scan_chunks_step [of pos e f]
  show ?case
  proof (cases "e \<le> pos")
    case True
    with "1.prems" step show ?thesis by simp
  next
    case False
    let ?c = "chunk_at pos (contents f)"
    from False "1.prems" step obtain cs' where
      le: "chunk_end ?c \<le> e" and
      rest: "scan_chunks (chunk_end ?c) e (f\<lparr>cursor := pos + 8\<rparr>) = Inr (cs', f')"
      by (auto simp: Let_def split: if_splits sum.splits prod.splits)
    have "f' = (f\<lparr>cursor := pos + 8\<rparr>)\<lparr>cursor := cursor f'\<rparr>"
      using "1.IH" [of ?c "f\<lparr>cursor := pos + 8\<rparr>"] False le rest
      by (simp add: chunk_read_eq)
    then show ?thesis by simp
  qed
qed


lemma header_read_frame: "header_read f = Inr (h, f') \<Longrightarrow> f' = f\<lparr>cursor := cursor f'\<rparr>"
  by (auto simp: header_read_eq split: sum.splits prod.splits dest!: scan_chunks_frame)


text \<open>\<open>Header::write\<close> with generic children writes the header and the children's headers back to back.\<close>

lemma header_write_generic:
  "header_write generic_write h f =
     write_bytes (id_field h @ enc_field 4 (size_field h) @ format h @
                  concat (map (\<lambda>co. id_field (fst co) @ enc_field 4 (size_field (fst co))) (chunks h))) f"
proof -
  have g: "\<And>co f. generic_write co f = write_bytes (id_field (fst co) @ enc_field 4 (size_field (fst co))) f"
    by (simp add: generic_write_def chunk_write_def write_field_eq write_bytes_write_bytes)
  show ?thesis
    by (simp add: header_write_def chunk_write_def write_field_eq write_bytes_write_bytes
        fold_write_bytes [OF g] chunk.truncate_def)
qed


lemma layout_chunks_empty:
  "layout_chunks p (map (\<lambda>co. (id_field (fst co), [])) cs) =
     map (\<lambda>i. \<lparr>id_field = id_field (fst (cs ! i)), size_field = 0, offset = p + 8 * i\<rparr>) [0..<length cs]"
proof (induction cs arbitrary: p)
  case Nil
  then show ?case by simp
next
  case (Cons co cs)
  have "[0..<length (co # cs)] = 0 # map Suc [0..<length cs]"
    by (simp add: upt_conv_Cons map_Suc_upt del: upt_Suc)
  with Cons.IH [of "p + 8"] show ?case
    by (simp add: comp_def algebra_simps)
qed


section \<open>Properties of Header::read\<close>

text \<open>
  C6 [header_read_children_tile]: the children that \<open>Header::read\<close> collects lie
  back to back inside the container's range \<open>[offset + 12, offset + 8 + size)\<close>,
  the first at its start and the last ending exactly at its end: the scan never
  reads a chunk past the declared end of its parent.
\<close>

theorem header_read_children_tile:
  "header_read f = Inr (h, f') \<Longrightarrow>
   tiles (offset h + 12) (map fst (chunks h)) (offset h + 8 + unat (size_field h))"
  by (auto simp: header_read_eq comp_def split: sum.splits prod.splits
           dest: scan_chunks_tiles)

theorem header_read_children_tile_witness:
  "header_read \<lparr>contents = tag ''RIFF'' @ enc_field 4 (12::32 word) @ tag ''WAVE'' @ tag ''abcd'' @ enc_field 4 (0::32 word),
                 cursor = 0\<rparr> =
     Inr (\<lparr>id_field = tag ''RIFF'', size_field = 12, offset = 0, format = tag ''WAVE'',
            chunks = [(\<lparr>id_field = tag ''abcd'', size_field = 0, offset = 12\<rparr>, Generic :: unit chunk_kind)]\<rparr>,
          \<lparr>contents = tag ''RIFF'' @ enc_field 4 (12::32 word) @ tag ''WAVE'' @ tag ''abcd'' @ enc_field 4 (0::32 word),
           cursor = 20\<rparr>) \<and>
   tiles 12 [\<lparr>id_field = tag ''abcd'', size_field = 0, offset = 12\<rparr>] 20"
proof -
  have h: "header_read \<lparr>contents = tag ''RIFF'' @ enc_field 4 (12::32 word) @ tag ''WAVE'' @ tag ''abcd'' @ enc_field 4 (0::32 word),
                 cursor = 0\<rparr> =
     Inr (\<lparr>id_field = tag ''RIFF'', size_field = 12, offset = 0, format = tag ''WAVE'',
            chunks = [(\<lparr>id_field = tag ''abcd'', size_field = 0, offset = 12\<rparr>, Generic :: unit chunk_kind)]\<rparr>,
          \<lparr>contents = tag ''RIFF'' @ enc_field 4 (12::32 word) @ tag ''WAVE'' @ tag ''abcd'' @ enc_field 4 (0::32 word),
           cursor = 20\<rparr>)"
    by code_simp
  from header_read_children_tile [OF h] h show ?thesis by simp
qed

text \<open>
  C8 [header_read_malformed]: a container whose declared size ends strictly inside
  one of its children (not at a child boundary) is rejected with
  \<open>MalformedContainer\<close>; the scan never truncates that child silently.
\<close>

theorem header_read_malformed:
  assumes wf: "well_formed_chunks ps" and t: "length t = 4" and fm: "length fm = 4"
    and img: "window (cursor f) (length (t @ enc_field 4 (sz :: 32 word) @ fm @ layout ps)) (contents f) =
              t @ enc_field 4 sz @ fm @ layout ps"
    and lo: "4 < unat sz" and hi: "unat sz < 4 + length (layout ps)"
    and nb: "cursor f + 8 + unat sz \<notin> set (boundaries (cursor f + 12) ps)"
  shows "\<exists>f'. header_read f = Inl (MalformedContainer, f')"
proof -
  let ?p = "cursor f" and ?xs = "contents f"
  note w = window_append4 [OF img]
  have w4: "window (?p + 12) (length (layout ps)) ?xs = layout ps"
    using w(4) t fm by (simp add: add.commute)
  have sz: "dec_field (window (?p + 4) 4 ?xs) = sz"
    using w(2) t by simp
  from w4 have "window (?p + 12) (length (layout ps)) (contents (f\<lparr>cursor := ?p + 12\<rparr>)) = layout ps"
    by simp
  from scan_chunks_cut [OF wf this, of "?p + 8 + unat sz"] lo hi nb obtain f' where
    "scan_chunks (?p + 12) (?p + 8 + unat sz) (f\<lparr>cursor := ?p + 12\<rparr>) = Inl (MalformedContainer, f')"
    by auto
  then show ?thesis
    using sz by (simp add: header_read_eq)
qed

theorem header_read_malformed_witness:
  "\<exists>f'. (header_read \<lparr>contents = tag ''RIFF'' @ enc_field 4 (10::32 word) @ tag ''WAVE'' @
                              layout [(tag ''abcd'', [1, 2, 3, 4])], cursor = 0\<rparr>
          :: (bytefile, unit header) exc) = Inl (MalformedContainer, f')"
  by (rule header_read_malformed [where ps = "[(tag ''abcd'', [1, 2, 3, 4])]" and t = "tag ''RIFF''"
        and fm = "tag ''WAVE''" and sz = 10])
     (simp add: well_formed_chunks_def, simp, simp, simp only: bytefile.select_convs window_whole,
      simp_all add: layout_def chunk_bytes_def)

text \<open>
  C9 [header_write_read_roundtrip]: what \<open>Header::write\<close> writes for a container
  whose children are plain chunks without payload, and whose declared size is
  consistent (4 plus 8 per child), \<open>Header::read\<close> reads back: the same tag, size
  and format, and the children's tags and sizes in order, each at the offset
  where it was written.
\<close>

theorem header_write_read_roundtrip:
  assumes t: "length (id_field h) = 4" and fm: "length (format h) = 4"
    and cs: "\<forall>co \<in> set (chunks h). length (id_field (fst co)) = 4 \<and> size_field (fst co) = 0"
    and sz: "unat (size_field h) = 4 + 8 * length (chunks h)"
  shows "\<exists>f'. header_read ((header_write generic_write (h :: 'c header) f)\<lparr>cursor := cursor f\<rparr>) =
           Inr (\<lparr>id_field = id_field h, size_field = size_field h, offset = cursor f, format = format h,
                  chunks = map (\<lambda>i. (\<lparr>id_field = id_field (fst (chunks h ! i)), size_field = 0,
                                        offset = cursor f + 12 + 8 * i\<rparr>, Generic :: 'd chunk_kind))
                             [0..<length (chunks h)]\<rparr>, f')"
proof -
  let ?ps = "map (\<lambda>co. (id_field (fst co), [] :: byte list)) (chunks h)"
  have kids: "concat (map (\<lambda>co. id_field (fst co) @ enc_field 4 (size_field (fst co))) (chunks h)) = layout ?ps"
    using cs by (simp add: layout_def chunk_bytes_def comp_def cong: map_cong)
  have len: "length (layout ?ps) = 8 * length (chunks h)"
  proof -
    have "length (layout ?ps) = sum_list (map (\<lambda>co. 8) (chunks h))"
      using cs by (simp add: layout_def chunk_bytes_def length_concat comp_def cong: map_cong)
    then show ?thesis by (simp add: sum_list_triv)
  qed
  have size: "size_field h = word_of_nat (4 + length (layout ?ps))"
  proof -
    have "size_field h = word_of_nat (unat (size_field h))" by simp
    then show ?thesis using sz len by simp
  qed
  have img: "header_write generic_write h f = write_bytes (container_bytes (id_field h) (format h) ?ps) f"
    by (simp add: header_write_generic kids container_bytes_def size)
  have wf: "well_formed_chunks ?ps"
    using cs by (simp add: well_formed_chunks_def list_all_iff)
  have bound: "4 + length (layout ?ps) < 2 ^ 32"
  proof -
    have "unat (size_field h) < 2 ^ LENGTH(32)" by (rule unsigned_less)
    with sz len show ?thesis by simp
  qed
  have w: "window (cursor ((header_write generic_write h f)\<lparr>cursor := cursor f\<rparr>))
             (length (container_bytes (id_field h) (format h) ?ps))
             (contents ((header_write generic_write h f)\<lparr>cursor := cursor f\<rparr>)) =
           container_bytes (id_field h) (format h) ?ps"
    by (simp add: img write_bytes_eq)
  from header_read_container [OF wf t fm bound w] show ?thesis
    by (simp add: layout_chunks_empty size comp_def)
qed


theorem header_write_read_roundtrip_witness:
  "\<exists>f'. header_read ((header_write generic_write (\<lparr>id_field = tag ''RIFF'', size_field = 12, offset = 0, format = tag ''WAVE'',
      chunks = [(\<lparr>id_field = tag ''abcd'', size_field = 0, offset = 0\<rparr>, Generic :: unit chunk_kind)]\<rparr>) \<lparr>contents = [], cursor = 0\<rparr>)\<lparr>cursor := 0\<rparr>) =
     Inr (\<lparr>id_field = tag ''RIFF'', size_field = 12, offset = 0, format = tag ''WAVE'',
            chunks = [(\<lparr>id_field = tag ''abcd'', size_field = 0, offset = 12\<rparr>, Generic :: unit chunk_kind)]\<rparr>, f')"
  using header_write_read_roundtrip [of "\<lparr>id_field = tag ''RIFF'', size_field = 12, offset = 0, format = tag ''WAVE'',
      chunks = [(\<lparr>id_field = tag ''abcd'', size_field = 0, offset = 0\<rparr>, Generic :: unit chunk_kind)]\<rparr>" "\<lparr>contents = [], cursor = 0\<rparr>"] by simp

end
