(* ===== verification/WaveChunks.thy ===== *)
theory WaveChunks
  imports Chunk
begin

text \<open>
  The WAVE chunk types of \<^verbatim>\<open>src/src/util/soundfile.cpp\<close> (\<open>WAVE_fmt\<close>, lines
  32-84, and \<open>WAVE_data\<close>, lines 86-98), the promotion of a generic chunk to
  them (lines 128-132), and the virtual \<open>read\<close>/\<open>write\<close> of a chunk object.
  Their \<open>read_fields\<close> and \<open>write_fields\<close> cast the file to the \<open>SoundFile\<close> it is,
  so they act on the sound file's state: the byte file extended with the
  \<open>info\<close> block, the sample size and the audio offset (declared in
  \<^verbatim>\<open>util/soundfile.hpp\<close>, not among the sources; the fields are the ones the
  code uses).  The embedder's extension points (spec 6) are the record
  \<open>hooks\<close>: \<open>replace_custom_chunk\<close>, the read and write of its custom chunks, and
  \<open>add_custom_chunks\<close>; \<open>no_hooks\<close> is a \<open>SoundFile\<close> with no custom chunks.
\<close>

text \<open>
  The container kind of spec 3 (\<open>Info::Type\<close>): WAVE, AIFF, or not yet known
  (a \<open>SoundFile\<close> that has been neither read nor given a type).
\<close>

datatype file_type = WAVE | AIFF | Unknown

record sound_info =
  ftype :: file_type
  channels :: int
  samplerate :: int

record soundfile = bytefile +
  info :: sound_info
  sample_size :: int
  audioOffset :: int

record 'c hooks =
  replace_custom_chunk :: "'c chunk_obj \<Rightarrow> 'c chunk_obj"
  custom_read_fields :: "'c \<Rightarrow> chunk \<Rightarrow> soundfile \<Rightarrow> soundfile"
  custom_write_fields :: "'c \<Rightarrow> chunk \<Rightarrow> soundfile \<Rightarrow> soundfile"
  add_custom_chunks :: "'c chunk_obj list \<Rightarrow> 'c chunk_obj list"

definition no_hooks :: "'c hooks" where
  "no_hooks =
     \<lparr>replace_custom_chunk = (\<lambda>co. co), custom_read_fields = (\<lambda>x c s. s),
      custom_write_fields = (\<lambda>x c s. s), add_custom_chunks = (\<lambda>cs. cs)\<rparr>"

section \<open>WAVE_fmt\<close>

record wave_fmt =
  audioFormat :: "16 word"
  numChannels :: "16 word"
  sampleRate :: "32 word"
  byteRate :: "32 word"
  blockAlign :: "16 word"
  bitsPerSample :: "16 word"

text \<open>
  \<open>WAVE_fmt::read_fields\<close>: the six fields in order; a non-float format throws
  before anything is published; channels and sample rate are published; then a
  sample size other than 32 bits throws, after the publication.
\<close>

definition fmt_read_fields :: "soundfile \<Rightarrow> (soundfile, wave_fmt) exc" where
  "fmt_read_fields s0 =
     (case read_field 2 s0 of (af, s1) \<Rightarrow>
      case read_field 2 s1 of (nc, s2) \<Rightarrow>
      case read_field 4 s2 of (sr, s3) \<Rightarrow>
      case read_field 4 s3 of (br, s4) \<Rightarrow>
      case read_field 2 s4 of (ba, s5) \<Rightarrow>
      case read_field 2 s5 of (bps, s6) \<Rightarrow>
        let fm = \<lparr>audioFormat = af, numChannels = nc, sampleRate = sr, byteRate = br,
                  blockAlign = ba, bitsPerSample = bps\<rparr>
        in if unat af \<noteq> 3 then Inl (UnsupportedAudioFormat, s6)
           else let s7 = s6\<lparr>info := (info s6)\<lparr>channels := uint nc, samplerate := sint sr\<rparr>\<rparr>
                in if unat bps \<noteq> 32 then Inl (UnsupportedSampleSize, s7)
                   else Inr (fm, s7))"

text \<open>
  The field values \<open>WAVE_fmt::write_fields\<close> computes (lines 69-75).  Assigning an
  \<open>int\<close> to a field through \<open>as_u()\<close> keeps its low bits; \<open>byteRate\<close> is computed in
  unsigned 32-bit arithmetic (wrapping); \<open>blockAlign\<close> is computed on the
  promoted \<open>int\<close> values and then truncated to 16 bits (the product of two 16-bit
  values below \<open>2^31\<close>, the range where the \<open>int\<close> product is defined).
\<close>

definition fmt_values :: "soundfile \<Rightarrow> wave_fmt" where
  "fmt_values s =
     (let nc = (word_of_int (channels (info s)) :: 16 word);
          sr = (word_of_int (samplerate (info s)) :: 32 word);
          bps = (word_of_int (sample_size s * 8) :: 16 word)
      in \<lparr>audioFormat = 3, numChannels = nc, sampleRate = sr,
          byteRate = sr * ucast nc * ucast bps div 8,
          blockAlign = word_of_int (uint nc * uint bps div 8),
          bitsPerSample = bps\<rparr>)"

text \<open>\<open>WAVE_fmt::write_fields\<close>: compute the fields, then write them in order.\<close>

definition fmt_write_fields :: "soundfile \<Rightarrow> soundfile" where
  "fmt_write_fields s =
     (let fm = fmt_values s
      in write_field 2 (bitsPerSample fm) (write_field 2 (blockAlign fm)
           (write_field 4 (byteRate fm) (write_field 4 (sampleRate fm)
             (write_field 2 (numChannels fm) (write_field 2 (audioFormat fm) s))))))"

section \<open>WAVE_data\<close>

text \<open>Both directions record where the samples start: right after the chunk header.\<close>

definition data_read_fields :: "chunk \<Rightarrow> soundfile \<Rightarrow> soundfile" where
  "data_read_fields c s = s\<lparr>audioOffset := int (offset c) + 8\<rparr>"

definition data_write_fields :: "chunk \<Rightarrow> soundfile \<Rightarrow> soundfile" where
  "data_write_fields c s = s\<lparr>audioOffset := int (offset c) + 8\<rparr>"

section \<open>Chunk objects\<close>

text \<open>
  The constructors of the two chunk types: \<open>WAVE_fmt()\<close> (line 33) and
  \<open>WAVE_data()\<close> (line 87) make a fresh chunk with their tag and size zero;
  \<open>WAVE_fmt(Chunk&)\<close> (line 34) and \<open>WAVE_data(Chunk&)\<close> (line 88) copy the
  generic chunk's tag, size and offset into the new object.
\<close>

definition fmt_chunk_new :: "'c chunk_obj" where
  "fmt_chunk_new = (new_chunk ''fmt '', Wave_fmt)"

definition fmt_of_chunk :: "chunk \<Rightarrow> 'c chunk_obj" where
  "fmt_of_chunk c = (c, Wave_fmt)"

definition data_chunk_new :: "'c chunk_obj" where
  "data_chunk_new = (new_chunk ''data'', Wave_data)"

definition data_of_chunk :: "chunk \<Rightarrow> 'c chunk_obj" where
  "data_of_chunk c = (c, Wave_data)"

declare fmt_chunk_new_def [simp] fmt_of_chunk_def [simp] data_chunk_new_def [simp] data_of_chunk_def [simp]

text \<open>
  Promotion in \<open>read_file\<close> (lines 128-132): a \<open>''fmt ''\<close> chunk becomes a
  \<open>WAVE_fmt\<close>, a \<open>''data''\<close> chunk a \<open>WAVE_data\<close>, each built from a copy of the
  generic chunk; then the embedder may replace it.
\<close>

definition promote :: "'c hooks \<Rightarrow> 'c chunk_obj \<Rightarrow> 'c chunk_obj" where
  "promote H co =
     (let co1 = (if id_field (fst co) = tag ''fmt '' then fmt_of_chunk (fst co) else co);
          co2 = (if id_field (fst co1) = tag ''data'' then data_of_chunk (fst co1) else co1)
      in replace_custom_chunk H co2)"

text \<open>
  \<open>Chunk::read\<close> of a chunk object: the generic part, then the kind's own
  \<open>read_fields\<close> (a generic chunk reads no fields of its own).
\<close>

definition obj_read :: "'c hooks \<Rightarrow> 'c chunk_obj \<Rightarrow> soundfile \<Rightarrow> (soundfile, 'c chunk_obj) exc" where
  "obj_read H co s =
     (case chunk_read s of (c, s1) \<Rightarrow>
      case snd co of
        Generic \<Rightarrow> Inr ((c, Generic), s1)
      | Wave_fmt \<Rightarrow>
          (case fmt_read_fields s1 of
             Inl err \<Rightarrow> Inl err
           | Inr (fm, s2) \<Rightarrow> Inr ((c, Wave_fmt), s2))
      | Wave_data \<Rightarrow> Inr ((c, Wave_data), data_read_fields c s1)
      | Custom x \<Rightarrow> Inr ((c, Custom x), custom_read_fields H x c s1))"

text \<open>\<open>Chunk::write\<close> of a chunk object: the generic part, then the kind's \<open>write_fields\<close>.\<close>

definition obj_write :: "'c hooks \<Rightarrow> 'c chunk_obj \<Rightarrow> soundfile \<Rightarrow> soundfile" where
  "obj_write H co s =
     (case chunk_write (fst co) s of (c, s1) \<Rightarrow>
      case snd co of
        Generic \<Rightarrow> s1
      | Wave_fmt \<Rightarrow> fmt_write_fields s1
      | Wave_data \<Rightarrow> data_write_fields c s1
      | Custom x \<Rightarrow> custom_write_fields H x c s1)"

section \<open>Specification of the fmt payload\<close>

text \<open>The 16 bytes of an fmt payload (spec 6), fields little-endian in order.\<close>

definition fmt_bytes :: "wave_fmt \<Rightarrow> byte list" where
  "fmt_bytes fm =
     enc_field 2 (audioFormat fm) @ enc_field 2 (numChannels fm) @ enc_field 4 (sampleRate fm) @
     enc_field 4 (byteRate fm) @ enc_field 2 (blockAlign fm) @ enc_field 2 (bitsPerSample fm)"

section \<open>Lemmas on the fmt chunk\<close>

lemma length_fmt_bytes [simp]: "length (fmt_bytes fm) = 16"
  by (simp add: fmt_bytes_def)

lemma fmt_write_fields_eq: "fmt_write_fields s = write_bytes (fmt_bytes (fmt_values s)) s"
  by (simp add: fmt_write_fields_def fmt_bytes_def write_field_eq write_bytes_write_bytes Let_def)

lemma fmt_read_fields_bytes:
  assumes w: "window (cursor s) 16 (contents s) = fmt_bytes fm"
  shows "fmt_read_fields s =
    (let s6 = s\<lparr>cursor := cursor s + 16\<rparr> in
     if unat (audioFormat fm) \<noteq> 3 then Inl (UnsupportedAudioFormat, s6)
     else let s7 = s6\<lparr>info := (info s6)\<lparr>channels := uint (numChannels fm), samplerate := sint (sampleRate fm)\<rparr>\<rparr>
          in if unat (bitsPerSample fm) \<noteq> 32 then Inl (UnsupportedSampleSize, s7) else Inr (fm, s7))"
proof -
  let ?c = "cursor s"
  have w0: "window ?c (2 + 14) (contents s) = enc_field 2 (audioFormat fm) @
     (enc_field 2 (numChannels fm) @ enc_field 4 (sampleRate fm) @
      enc_field 4 (byteRate fm) @ enc_field 2 (blockAlign fm) @ enc_field 2 (bitsPerSample fm))"
    using w by (simp add: fmt_bytes_def)
  note r1 = read_field_prefix [OF w0]
  have w1: "window (cursor (s\<lparr>cursor := ?c + 2\<rparr>)) (2 + 12) (contents (s\<lparr>cursor := ?c + 2\<rparr>)) =
      enc_field 2 (numChannels fm) @ (enc_field 4 (sampleRate fm) @
      enc_field 4 (byteRate fm) @ enc_field 2 (blockAlign fm) @ enc_field 2 (bitsPerSample fm))"
    using r1(2) by (simp del: add_2_eq_Suc add_2_eq_Suc')
  note r2 = read_field_prefix [OF w1]
  have w2: "window (cursor (s\<lparr>cursor := ?c + 4\<rparr>)) (4 + 8) (contents (s\<lparr>cursor := ?c + 4\<rparr>)) =
      enc_field 4 (sampleRate fm) @ (enc_field 4 (byteRate fm) @ enc_field 2 (blockAlign fm) @ enc_field 2 (bitsPerSample fm))"
    using r2(2) by (simp add: add.assoc del: add_2_eq_Suc add_2_eq_Suc')
  note r3 = read_field_prefix [OF w2]
  have w3: "window (cursor (s\<lparr>cursor := ?c + 8\<rparr>)) (4 + 4) (contents (s\<lparr>cursor := ?c + 8\<rparr>)) =
      enc_field 4 (byteRate fm) @ (enc_field 2 (blockAlign fm) @ enc_field 2 (bitsPerSample fm))"
    using r3(2) by (simp add: add.assoc del: add_2_eq_Suc add_2_eq_Suc')
  note r4 = read_field_prefix [OF w3]
  have w4: "window (cursor (s\<lparr>cursor := ?c + 12\<rparr>)) (2 + 2) (contents (s\<lparr>cursor := ?c + 12\<rparr>)) =
      enc_field 2 (blockAlign fm) @ enc_field 2 (bitsPerSample fm)"
    using r4(2) by (simp add: add.assoc del: add_2_eq_Suc add_2_eq_Suc')
  note r5 = read_field_prefix [OF w4]
  have w5: "window (cursor (s\<lparr>cursor := ?c + 14\<rparr>)) (2 + 0) (contents (s\<lparr>cursor := ?c + 14\<rparr>)) =
      enc_field 2 (bitsPerSample fm) @ []"
    using r5(2) by (simp add: add.assoc del: add_2_eq_Suc add_2_eq_Suc')
  note r6 = read_field_prefix [OF w5]
  show ?thesis
    using r1(1) r2(1) r3(1) r4(1) r5(1) r6(1)
    by (simp add: fmt_read_fields_def Let_def add.assoc del: add_2_eq_Suc add_2_eq_Suc')
qed

lemma fmt_write_window:
  "window (cursor s) 16 (contents (fmt_write_fields s)) = fmt_bytes (fmt_values s)"
  using window_overwrite_same [of "cursor s" "fmt_bytes (fmt_values s)" "contents s"]
  by (simp add: fmt_write_fields_eq write_bytes_eq)

lemma tag_fmt_data: "tag ''fmt '' \<noteq> tag ''data''"
  by (simp add: tag_def)


lemma promote_no_hooks:
  "promote no_hooks co =
     (fst co, if id_field (fst co) = tag ''fmt '' then Wave_fmt
              else if id_field (fst co) = tag ''data'' then Wave_data else snd co)"
  by (simp add: promote_def no_hooks_def Let_def tag_def)


lemma fmt_values_write_bytes [simp]: "fmt_values (write_bytes bs s) = fmt_values s"
  by (simp add: fmt_values_def write_bytes_eq)


lemma fmt_values_cursor [simp]: "fmt_values (s\<lparr>cursor := k\<rparr>) = fmt_values s"
  by (simp add: fmt_values_def)


section \<open>Properties of WAVE_fmt\<close>

text \<open>
  C5 [fmt_write_read_roundtrip]: what \<open>WAVE_fmt::write_fields\<close> writes,
  \<open>WAVE_fmt::read_fields\<close> reads back without error and publishes the same
  channel count and sample rate, for a 4-byte sample size and counts that fit
  their fields.
\<close>

theorem fmt_write_read_roundtrip:
  assumes ch: "0 \<le> channels (info s)" "channels (info s) < 2 ^ 16"
    and sr: "- (2 ^ 31) \<le> samplerate (info s)" "samplerate (info s) < 2 ^ 31"
    and ss: "sample_size s = 4"
  shows "\<exists>fm s'. fmt_read_fields ((fmt_write_fields s)\<lparr>cursor := cursor s\<rparr>) = Inr (fm, s') \<and>
           channels (info s') = channels (info s) \<and> samplerate (info s') = samplerate (info s)"
proof -
  let ?fm = "fmt_values s"
  have w: "window (cursor ((fmt_write_fields s)\<lparr>cursor := cursor s\<rparr>)) 16
             (contents ((fmt_write_fields s)\<lparr>cursor := cursor s\<rparr>)) = fmt_bytes ?fm"
    using fmt_write_window by simp
  have af: "unat (audioFormat ?fm) = 3" and bps: "unat (bitsPerSample ?fm) = 32"
    using ss by (simp_all add: fmt_values_def Let_def)
  have nc: "uint (numChannels ?fm) = channels (info s)"
    using ch by (simp add: fmt_values_def Let_def uint_word_of_int_small)
  have sr': "sint (sampleRate ?fm) = samplerate (info s)"
    using sr sint_word_of_int_small [of "samplerate (info s)", where 'a = 32]
    by (simp add: fmt_values_def Let_def)
  show ?thesis
    using fmt_read_fields_bytes [OF w] af bps nc sr' by (simp add: Let_def)
qed

theorem fmt_write_read_roundtrip_witness:
  "\<exists>fm s'. fmt_read_fields ((fmt_write_fields
       \<lparr>contents = [], cursor = 0, info = \<lparr>ftype = WAVE, channels = 2, samplerate = 44100\<rparr>,
        sample_size = 4, audioOffset = 0\<rparr>)\<lparr>cursor := 0\<rparr>) = Inr (fm, s') \<and>
     channels (info s') = 2 \<and> samplerate (info s') = 44100"
  using fmt_write_read_roundtrip [of "\<lparr>contents = [], cursor = 0, info = \<lparr>ftype = WAVE, channels = 2, samplerate = 44100\<rparr>,
        sample_size = 4, audioOffset = 0\<rparr>"] by simp

text \<open>
  C13 [fmt_read_rejects_format]: an fmt chunk whose encoding tag is not 3 (IEEE
  float) is rejected with \<open>UnsupportedAudioFormat\<close> after its 16 bytes are
  consumed, and nothing is published to the sound file.
\<close>

theorem fmt_read_rejects_format:
  "unat (dec_field (window (cursor s) 2 (contents s)) :: 16 word) \<noteq> 3 \<Longrightarrow>
   fmt_read_fields s = Inl (UnsupportedAudioFormat, s\<lparr>cursor := cursor s + 16\<rparr>)"
  by (simp add: fmt_read_fields_def codec_simps Let_def add.assoc del: add_2_eq_Suc add_2_eq_Suc')

theorem fmt_read_rejects_format_witness:
  "fmt_read_fields \<lparr>contents = enc_field 2 (1 :: 16 word) @ replicate 14 0, cursor = 0,
      info = \<lparr>ftype = WAVE, channels = 0, samplerate = 0\<rparr>, sample_size = 4, audioOffset = 0\<rparr> =
   Inl (UnsupportedAudioFormat, \<lparr>contents = enc_field 2 (1 :: 16 word) @ replicate 14 0, cursor = 16,
      info = \<lparr>ftype = WAVE, channels = 0, samplerate = 0\<rparr>, sample_size = 4, audioOffset = 0\<rparr>)"
  using fmt_read_rejects_format [of "\<lparr>contents = enc_field 2 (1 :: 16 word) @ replicate 14 0, cursor = 0,
      info = \<lparr>ftype = WAVE, channels = 0, samplerate = 0\<rparr>, sample_size = 4, audioOffset = 0\<rparr>"]
  by simp

text \<open>
  C14 [fmt_read_rejects_bits]: a float fmt chunk whose sample size is not 32 bits
  is rejected with \<open>UnsupportedSampleSize\<close>; by then its channel count and sample
  rate have already been published to the sound file (spec 4.4 publishes them
  on success only).
\<close>

theorem fmt_read_rejects_bits:
  "window (cursor s) 16 (contents s) = fmt_bytes fm \<Longrightarrow>
   unat (audioFormat fm) = 3 \<Longrightarrow> unat (bitsPerSample fm) \<noteq> 32 \<Longrightarrow>
   fmt_read_fields s =
     Inl (UnsupportedSampleSize,
          s\<lparr>cursor := cursor s + 16,
            info := (info s)\<lparr>channels := uint (numChannels fm), samplerate := sint (sampleRate fm)\<rparr>\<rparr>)"
  by (simp add: fmt_read_fields_bytes Let_def)

theorem fmt_read_rejects_bits_witness:
  "fmt_read_fields \<lparr>contents = fmt_bytes \<lparr>audioFormat = 3, numChannels = 2, sampleRate = 44100, byteRate = 352800,
        blockAlign = 8, bitsPerSample = 16\<rparr>, cursor = 0,
      info = \<lparr>ftype = WAVE, channels = 0, samplerate = 0\<rparr>, sample_size = 4, audioOffset = 0\<rparr> =
   Inl (UnsupportedSampleSize, \<lparr>contents = fmt_bytes \<lparr>audioFormat = 3, numChannels = 2, sampleRate = 44100, byteRate = 352800,
        blockAlign = 8, bitsPerSample = 16\<rparr>, cursor = 16,
      info = \<lparr>ftype = WAVE, channels = 2, samplerate = 44100\<rparr>, sample_size = 4, audioOffset = 0\<rparr>)"
  using fmt_read_rejects_bits [of "\<lparr>contents = fmt_bytes \<lparr>audioFormat = 3, numChannels = 2, sampleRate = 44100, byteRate = 352800,
        blockAlign = 8, bitsPerSample = 16\<rparr>, cursor = 0,
      info = \<lparr>ftype = WAVE, channels = 0, samplerate = 0\<rparr>, sample_size = 4, audioOffset = 0\<rparr>"
      "\<lparr>audioFormat = 3, numChannels = 2, sampleRate = 44100, byteRate = 352800,
        blockAlign = 8, bitsPerSample = 16\<rparr>"]
  by simp

end
