(* ===== verification/SoundFile.thy ===== *)
theory SoundFile
  imports WaveChunks
begin

text \<open>
  \<open>SoundFile\<close> (\<^verbatim>\<open>src/src/util/soundfile.cpp\<close>, lines 104-194): the
  sample-indexed view of the byte file (\<open>seek\<close>, \<open>position\<close>, \<open>length\<close>), and
  the parse (\<open>read_file\<close>) and assembly (\<open>write_file\<close>) of the WAVE container.
  \<open>Position\<close> is a signed integer (the code tests \<open>r < 0\<close>), and \<open>/\<close> on it
  truncates towards zero (\<open>cdiv\<close>).  \<open>create_file\<close>, which \<open>read_file\<close> calls on a
  file whose leading tag is zero, is declared outside the sources; it is
  modelled from spec 4.6 and 8 as making the file a new, empty WAVE file.
\<close>

section \<open>Sample addressing\<close>

definition sf_seek :: "int \<Rightarrow> soundfile \<Rightarrow> int \<times> soundfile" where
  "sf_seek p s =
     (case bf_seek (audioOffset s + p * sample_size s) s of
        (r, s') \<Rightarrow> (cdiv (r - audioOffset s) (sample_size s), s'))"

definition sf_position :: "soundfile \<Rightarrow> int \<times> soundfile" where
  "sf_position s =
     (let r = cdiv (bf_position s - audioOffset s) (sample_size s)
      in if r < 0 then (0, snd (sf_seek 0 s)) else (r, s))"

definition sf_length :: "soundfile \<Rightarrow> int" where
  "sf_length s = cdiv (bf_size s - audioOffset s) (sample_size s)"

section \<open>Reading\<close>

text \<open>
  \<open>create_file\<close> (declared outside the sources): spec 4.6 has it start a
  brand-new, empty WAVE file in its default state, and spec 8 has a zero-length
  stream read as \<open>length() == 0\<close>, so no payload offset survives; the format
  fields the embedder set are kept.
\<close>

definition create_file :: "soundfile \<Rightarrow> soundfile" where
  "create_file s = s\<lparr>info := (info s)\<lparr>ftype := WAVE\<rparr>, audioOffset := 0\<rparr>"

text \<open>The dispatch on the header's tag and format (lines 111-120).\<close>

definition select_type :: "'c header \<Rightarrow> soundfile \<Rightarrow> soundfile outcome" where
  "select_type h s =
     (if id_field h = tag ''RIFF'' \<and> format h = tag ''WAVE''
      then Inr (s\<lparr>info := (info s)\<lparr>ftype := WAVE\<rparr>\<rparr>)
      else if id_field h = tag ''FORM'' \<and> format h = tag ''AIFF''
      then Inr (s\<lparr>info := (info s)\<lparr>ftype := AIFF\<rparr>\<rparr>)
      else if le_nat (id_field h) = 0 then Inr (create_file s)
      else Inl (UnrecognizedFileType (id_field h), s))"

text \<open>
  The loop over the header's children (lines 127-142): promote, let the
  embedder replace, seek to the chunk's beginning and read it again as its kind.
\<close>

fun read_chunks ::
  "'c hooks \<Rightarrow> 'c chunk_obj list \<Rightarrow> soundfile \<Rightarrow> (soundfile, 'c chunk_obj list) exc" where
  "read_chunks H [] s = Inr ([], s)"
| "read_chunks H (co # cos) s =
     (let co' = promote H co
      in case obj_read H co' (snd (bf_seek (int (offset (fst co'))) s)) of
           Inl err \<Rightarrow> Inl err
         | Inr (co'', s1) \<Rightarrow>
             (case read_chunks H cos s1 of
                Inl err \<Rightarrow> Inl err
              | Inr (cs, s2) \<Rightarrow> Inr (co'' # cs, s2)))"

text \<open>
  \<open>read_file\<close> (lines 106-150).  The final \<open>seek(0)\<close> is \<open>SoundFile::seek\<close>, the
  sample-indexed seek: it leaves the stream at the first sample.  The \<open>switch\<close>
  on the type has no case for an unknown type, which falls through to \<open>seek(0)\<close>.
\<close>

definition read_file :: "'c hooks \<Rightarrow> soundfile \<Rightarrow> soundfile outcome" where
  "read_file H s0 =
     (case header_read (snd (bf_seek 0 s0)) of
        Inl err \<Rightarrow> Inl err
      | Inr (h, s1) \<Rightarrow>
          (case select_type h s1 of
             Inl err \<Rightarrow> Inl err
           | Inr s2 \<Rightarrow>
               (case ftype (info s2) of
                  WAVE \<Rightarrow>
                    (case read_chunks H (chunks h) s2 of
                       Inl err \<Rightarrow> Inl err
                     | Inr (cs, s3) \<Rightarrow> Inr (snd (sf_seek 0 s3)))
                | AIFF \<Rightarrow> Inl (UnsupportedFileTypeRead, s2)
                | Unknown \<Rightarrow> Inr (snd (sf_seek 0 s2)))))"

section \<open>Writing\<close>

text \<open>
  \<open>write_file\<close> (lines 152-176): a default-constructed \<open>Header\<close> (size zero) is
  given its tag and format, an fmt chunk, the embedder's custom chunks and a
  data chunk whose size is the file's size less the current audio offset, and is
  written from the start of the file.  The \<open>switch\<close> has no case for an
  unknown type: then nothing is written and no error is raised.
\<close>

definition write_file :: "'c hooks \<Rightarrow> soundfile \<Rightarrow> soundfile outcome" where
  "write_file H s0 =
     (let s1 = snd (bf_seek 0 s0)
      in case ftype (info s1) of
           WAVE \<Rightarrow>
             (let cs = add_custom_chunks H [fmt_chunk_new];
                  dat = (case data_chunk_new of
                           (c, k) \<Rightarrow> (c\<lparr>size_field := word_of_int (bf_size s1 - audioOffset s1)\<rparr>, k));
                  h = header_default\<lparr>id_field := tag ''RIFF'', format := tag ''WAVE'', chunks := cs @ [dat]\<rparr>
              in Inr (header_write (obj_write H) h s1))
         | AIFF \<Rightarrow> Inl (UnsupportedTypeWrite, s1)
         | Unknown \<Rightarrow> Inr s1)"

section \<open>Specification of a WAVE file\<close>

text \<open>
  The smallest WAVE file of spec 6: the RIFF container holding an fmt chunk
  and a data chunk with the given samples.
\<close>

definition wave_image :: "wave_fmt \<Rightarrow> byte list \<Rightarrow> byte list" where
  "wave_image fm samples =
     container_bytes (tag ''RIFF'') (tag ''WAVE'') [(tag ''fmt '', fmt_bytes fm), (tag ''data'', samples)]"

text \<open>
  The 44 bytes \<open>write_file\<close> writes without custom chunks: the RIFF header with
  the size it is given (zero), the fmt chunk (size field zero) with its 16
  bytes, and the data chunk's header with the data size.
\<close>

definition written_header :: "wave_fmt \<Rightarrow> 32 word \<Rightarrow> byte list" where
  "written_header fm dsize =
     tag ''RIFF'' @ enc_field 4 (0 :: 32 word) @ tag ''WAVE'' @
     tag ''fmt '' @ enc_field 4 (0 :: 32 word) @ fmt_bytes fm @ tag ''data'' @ enc_field 4 dsize"

text \<open>
  The bytes of custom chunks whose \<open>write_fields\<close> write a payload: each is its
  tag, its size field and its payload (spec 6).
\<close>

definition custom_bytes :: "('c \<Rightarrow> byte list) \<Rightarrow> (chunk \<times> 'c) list \<Rightarrow> byte list" where
  "custom_bytes pl ys = concat (map (\<lambda>(c, x). id_field c @ enc_field 4 (size_field c) @ pl x) ys)"

section \<open>Lemmas\<close>

lemma sf_seek_zero [simp]: "snd (sf_seek 0 s) = s\<lparr>cursor := nat (audioOffset s)\<rparr>"
  by (simp add: sf_seek_def codec_simps)


text \<open>Seeking to a sample whose byte position is not negative reaches it, and \<open>position()\<close> then reports it.\<close>

lemma sf_seek_fst:
  "0 < sample_size s \<Longrightarrow> 0 \<le> audioOffset s + p * sample_size s \<Longrightarrow> fst (sf_seek p s) = p"
  by (simp add: sf_seek_def codec_simps)

lemma sf_position_after_seek:
  "0 < sample_size s \<Longrightarrow> 0 \<le> audioOffset s + p * sample_size s \<Longrightarrow> 0 \<le> p \<Longrightarrow>
   fst (sf_position (snd (sf_seek p s))) = p"
  by (simp add: sf_position_def sf_seek_def bf_position_def codec_simps Let_def)

lemma length_wave_image [simp]: "length (wave_image fm samples) = 44 + length samples"
  by (simp add: wave_image_def container_bytes_def layout_def chunk_bytes_def)


lemma wave_image_fmt: "window 20 16 (wave_image fm samples) = fmt_bytes fm"
  by (simp add: window_take_drop wave_image_def container_bytes_def layout_def chunk_bytes_def)


lemma header_read_wave_image:
  assumes img: "contents s = wave_image fm samples" and n: "length samples + 36 < 2 ^ 32"
  shows "\<exists>k. header_read (s\<lparr>cursor := 0\<rparr>) =
     Inr (\<lparr>id_field = tag ''RIFF'', size_field = word_of_nat (36 + length samples), offset = 0,
            format = tag ''WAVE'',
            chunks = [(\<lparr>id_field = tag ''fmt '', size_field = 16, offset = 12\<rparr>, Generic :: 'c chunk_kind),
                      (\<lparr>id_field = tag ''data'', size_field = word_of_nat (length samples), offset = 36\<rparr>, Generic)]\<rparr>,
          s\<lparr>cursor := k\<rparr>)"
proof -
  let ?ps = "[(tag ''fmt '', fmt_bytes fm), (tag ''data'', samples)]"
  have wf: "well_formed_chunks ?ps"
    using n by (simp add: well_formed_chunks_def)
  have sz: "4 + length (layout ?ps) < 2 ^ 32"
    using n by (simp add: layout_def chunk_bytes_def)
  have w: "window (cursor (s\<lparr>cursor := 0\<rparr>)) (length (container_bytes (tag ''RIFF'') (tag ''WAVE'') ?ps))
             (contents (s\<lparr>cursor := 0\<rparr>)) = container_bytes (tag ''RIFF'') (tag ''WAVE'') ?ps"
    using img by (simp add: wave_image_def)
  from header_read_container [OF wf _ _ sz w] obtain f' where
    r: "header_read (s\<lparr>cursor := 0\<rparr>) =
        Inr (\<lparr>id_field = tag ''RIFF'', size_field = word_of_nat (4 + length (layout ?ps)), offset = 0,
               format = tag ''WAVE'', chunks = map (\<lambda>c. (c, Generic :: 'c chunk_kind)) (layout_chunks 12 ?ps)\<rparr>, f')"
    by auto
  from header_read_frame [OF r] have "f' = s\<lparr>cursor := cursor f'\<rparr>"
    by simp
  with r show ?thesis
    by (auto simp: layout_def chunk_bytes_def)
qed


text \<open>
  Reading a WAVE image comes down to the read of its fmt chunk at byte 20: an
  error there is the error of \<open>read_file\<close>; otherwise the data chunk at byte 36
  places the payload at byte 44, where the final seek leaves the stream.
\<close>

lemma read_file_wave_image:
  assumes img: "contents s = wave_image fm samples" and n: "length samples + 36 < 2 ^ 32"
  shows "read_file (no_hooks :: 'c hooks) s =
           (case fmt_read_fields (s\<lparr>info := (info s)\<lparr>ftype := WAVE\<rparr>, cursor := 20\<rparr>) of
              Inl err \<Rightarrow> Inl err
            | Inr (fm', s1) \<Rightarrow> Inr (s1\<lparr>cursor := 44, audioOffset := 44\<rparr>))"
proof -
  from header_read_wave_image [OF img n] obtain k where h:
    "header_read (s\<lparr>cursor := 0\<rparr>) =
     Inr (\<lparr>id_field = tag ''RIFF'', size_field = word_of_nat (36 + length samples), offset = 0,
            format = tag ''WAVE'',
            chunks = [(\<lparr>id_field = tag ''fmt '', size_field = 16, offset = 12\<rparr>, Generic :: 'c chunk_kind),
                      (\<lparr>id_field = tag ''data'', size_field = word_of_nat (length samples), offset = 36\<rparr>, Generic)]\<rparr>,
          s\<lparr>cursor := k\<rparr>)"
    by blast
  have fr: "\<And>fm' s1. fmt_read_fields (s\<lparr>info := (info s)\<lparr>ftype := WAVE\<rparr>, cursor := 20\<rparr>) = Inr (fm', s1) \<Longrightarrow>
              contents s1 = contents s \<and> audioOffset s1 = audioOffset s"
    by (auto simp: fmt_read_fields_def codec_simps Let_def split: if_splits prod.splits)
  show ?thesis
    using h tag_fmt_data
    by (auto simp: read_file_def select_type_def promote_no_hooks obj_read_def chunk_read_eq
        data_read_fields_def bf_seek_eq sf_seek_def Let_def chunk_at_def img
        dest: fr split: sum.splits prod.splits)
qed

lemma read_file_wave_state:
  assumes img: "contents s = wave_image fm samples" and af: "unat (audioFormat fm) = 3"
    and bps: "unat (bitsPerSample fm) = 32" and n: "length samples + 36 < 2 ^ 32"
  shows "read_file (no_hooks :: 'c hooks) s =
           Inr (s\<lparr>cursor := 44, info := (info s)\<lparr>ftype := WAVE, channels := uint (numChannels fm),
                  samplerate := sint (sampleRate fm)\<rparr>, audioOffset := 44\<rparr>)"
proof -
  have w: "window 20 16 (contents s) = fmt_bytes fm"
    using img by (simp add: wave_image_fmt)
  have f: "fmt_read_fields (s\<lparr>info := (info s)\<lparr>ftype := WAVE\<rparr>, cursor := 20\<rparr>) =
             Inr (fm, s\<lparr>cursor := 36, info := (info s)\<lparr>ftype := WAVE, channels := uint (numChannels fm),
                  samplerate := sint (sampleRate fm)\<rparr>\<rparr>)"
    using fmt_read_fields_bytes [of "s\<lparr>info := (info s)\<lparr>ftype := WAVE\<rparr>, cursor := 20\<rparr>" fm] w af bps
    by (simp add: Let_def)
  show ?thesis
    by (simp add: read_file_wave_image [OF img n] f)
qed

lemma length_written_header [simp]: "length (written_header fm d) = 44"
  by (simp add: written_header_def)

lemma written_header_not_Nil [simp]: "written_header fm d \<noteq> []"
  by (simp add: written_header_def tag_def)

text \<open>
  The header \<open>write_file\<close> writes differs from that of a WAVE image in the RIFF
  size (bytes 4-7) and the fmt chunk's size (bytes 16-19), both zero.
\<close>

lemma wave_image_sizes_zeroed:
  "overwrite 4 (enc_field 4 (0 :: 32 word)) (overwrite 16 (enc_field 4 (0 :: 32 word)) (wave_image fm samples)) =
   written_header fm (word_of_nat (length samples)) @ samples"
  by (simp add: overwrite_def wave_image_def written_header_def container_bytes_def layout_def
      chunk_bytes_def tag_def Let_def)

text \<open>What \<open>write_file\<close> does for an embedder without custom chunks.\<close>

lemma write_file_no_hooks:
  "ftype (info s) = WAVE \<Longrightarrow>
   write_file (no_hooks :: 'c hooks) s =
     Inr (s\<lparr>contents := overwrite 0 (written_header (fmt_values s) (word_of_int (bf_size s - audioOffset s)))
                 (contents s),
            cursor := 44, audioOffset := 44\<rparr>)"
  by (simp add: write_file_def header_write_def no_hooks_def obj_write_def chunk_write_def new_chunk_def
      fmt_write_fields_eq data_write_fields_def codec_simps written_header_def
      bf_size_def Let_def chunk.truncate_def)
     (simp add: write_bytes_eq)

text \<open>
  A file that starts with the header \<open>write_file\<close> writes reads as an empty WAVE
  container: its RIFF size is zero, so no chunk is scanned and the audio offset
  and the format the object had are kept.
\<close>

lemma read_file_written_header:
  "contents s = written_header fm d @ rest \<Longrightarrow>
   read_file H s = Inr (s\<lparr>cursor := nat (audioOffset s), info := (info s)\<lparr>ftype := WAVE\<rparr>\<rparr>)"
  by (simp add: read_file_def header_read_eq scan_chunks_step select_type_def sf_seek_def bf_seek_eq
      Let_def window_take_drop written_header_def tag_def)

lemma mod_8192_4_cases:
  assumes m: "(w::int) mod 8192 = 4" and p: "0 < w"
  shows "w = 4 \<or> 8196 \<le> w"
proof -
  have e: "w = 8192 * (w div 8192) + 4"
    using m div_mult_mod_eq [of w 8192] by simp
  show ?thesis
  proof (cases "w div 8192" "0::int" rule: linorder_cases)
    case less
    with e p show ?thesis by linarith
  next
    case equal
    with e show ?thesis by simp
  next
    case greater
    with e show ?thesis by linarith
  qed
qed


section \<open>Properties of SoundFile\<close>

text \<open>
  C1 [read_file_wave]: reading a well-formed WAVE file (spec 6) whose fmt chunk
  declares 32-bit float samples succeeds, publishes the file's channel count and
  sample rate, places the payload right after the 44-byte header, and reports as
  many samples as the payload holds sample-size units.
\<close>

theorem read_file_wave:
  assumes img: "contents s = wave_image fm samples" and af: "unat (audioFormat fm) = 3"
    and bps: "unat (bitsPerSample fm) = 32" and n: "length samples + 36 < 2 ^ 32"
    and w: "0 < sample_size s"
  shows "\<exists>s'. read_file (no_hooks :: 'c hooks) s = Inr s' \<and> ftype (info s') = WAVE \<and>
           channels (info s') = uint (numChannels fm) \<and> samplerate (info s') = sint (sampleRate fm) \<and>
           audioOffset s' = 44 \<and> sf_length s' = int (length samples) div sample_size s"
proof -
  let ?s' = "s\<lparr>cursor := 44, info := (info s)\<lparr>ftype := WAVE, channels := uint (numChannels fm),
                  samplerate := sint (sampleRate fm)\<rparr>, audioOffset := 44\<rparr>"
  have r: "read_file (no_hooks :: 'c hooks) s = Inr ?s'"
    by (rule read_file_wave_state [OF img af bps n])
  have l: "sf_length ?s' = int (length samples) div sample_size s"
    using img w by (simp add: sf_length_def bf_size_def codec_simps)
  show ?thesis
    by (rule exI [of _ ?s']) (simp add: r l)
qed

theorem read_file_wave_witness:
  "\<exists>s'. read_file (no_hooks :: unit hooks) \<lparr>contents = wave_image \<lparr>audioFormat = 3, numChannels = 2, sampleRate = 44100, byteRate = 352800,
        blockAlign = 8, bitsPerSample = 32\<rparr> (replicate 8 0), cursor = 0,
      info = \<lparr>ftype = WAVE, channels = 0, samplerate = 0\<rparr>, sample_size = 4, audioOffset = 0\<rparr> = Inr s' \<and>
     ftype (info s') = WAVE \<and> channels (info s') = 2 \<and> samplerate (info s') = 44100 \<and>
     audioOffset s' = 44 \<and> sf_length s' = 2"
  using read_file_wave [of "\<lparr>contents = wave_image \<lparr>audioFormat = 3, numChannels = 2, sampleRate = 44100, byteRate = 352800,
        blockAlign = 8, bitsPerSample = 32\<rparr> (replicate 8 0), cursor = 0,
      info = \<lparr>ftype = WAVE, channels = 0, samplerate = 0\<rparr>, sample_size = 4, audioOffset = 0\<rparr>" "\<lparr>audioFormat = 3, numChannels = 2, sampleRate = 44100, byteRate = 352800,
        blockAlign = 8, bitsPerSample = 32\<rparr>" "replicate 8 0"]
  by simp

text \<open>
  C2 [write_file_wave]: with no custom chunks, \<open>write_file\<close> overwrites the first 44
  bytes of the file with the RIFF tag, a zero RIFF size, the WAVE tag, an fmt
  chunk whose size field is zero followed by the 16 computed fmt bytes, and a
  data chunk header whose size is the file size less the previous audio offset;
  the audio offset becomes 44 and the cursor stays after the header.
\<close>

theorem write_file_wave:
  assumes t: "ftype (info s) = WAVE"
  shows "\<exists>s'. write_file (no_hooks :: 'c hooks) s = Inr s' \<and>
           window 0 44 (contents s') = written_header (fmt_values s) (word_of_int (bf_size s - audioOffset s)) \<and>
           drop 44 (contents s') = drop 44 (contents s) \<and>
           info s' = info s \<and> cursor s' = 44 \<and> audioOffset s' = 44"
proof -
  let ?h = "written_header (fmt_values s) (word_of_int (bf_size s - audioOffset s))"
  have "drop (0 + length ?h) (overwrite 0 ?h (contents s)) = drop (0 + length ?h) (contents s)"
    by (rule drop_overwrite) simp
  then show ?thesis
    using window_overwrite_same [of 0 ?h "contents s"] by (simp add: write_file_no_hooks [OF t])
qed

theorem write_file_wave_witness:
  "\<exists>s'. write_file (no_hooks :: unit hooks) \<lparr>contents = [], cursor = 0, info = \<lparr>ftype = WAVE, channels = 2, samplerate = 44100\<rparr>,
      sample_size = 4, audioOffset = 0\<rparr> = Inr s' \<and>
     window 0 44 (contents s') = written_header (fmt_values \<lparr>contents = [], cursor = 0, info = \<lparr>ftype = WAVE, channels = 2, samplerate = 44100\<rparr>,
      sample_size = 4, audioOffset = 0\<rparr>) 0 \<and>
     drop 44 (contents s') = [] \<and> info s' = \<lparr>ftype = WAVE, channels = 2, samplerate = 44100\<rparr> \<and>
     cursor s' = 44 \<and> audioOffset s' = 44"
  using write_file_wave [of "\<lparr>contents = [], cursor = 0, info = \<lparr>ftype = WAVE, channels = 2, samplerate = 44100\<rparr>,
      sample_size = 4, audioOffset = 0\<rparr>"] by (simp add: bf_size_def)

text \<open>
  C20 [read_file_cursor_at_payload]: after a successful \<open>read_file\<close> the stream is at
  the first sample (the audio offset), not at byte 0 as spec 4.6 says: the final
  \<open>seek(0)\<close> is the sample-indexed seek.
\<close>

theorem read_file_cursor_at_payload:
  "read_file H s = Inr s' \<Longrightarrow> cursor s' = nat (audioOffset s')"
  by (auto simp: read_file_def split: sum.splits prod.splits file_type.splits)


theorem read_file_cursor_at_payload_witness:
  "read_file (no_hooks :: unit hooks) \<lparr>contents = [], cursor = 0, info = \<lparr>ftype = WAVE, channels = 2, samplerate = 44100\<rparr>,
      sample_size = 4, audioOffset = 0\<rparr> =
     Inr (\<lparr>contents = [], cursor = 0, info = \<lparr>ftype = WAVE, channels = 2, samplerate = 44100\<rparr>,
      sample_size = 4, audioOffset = 0\<rparr>\<lparr>info := \<lparr>ftype = WAVE, channels = 2, samplerate = 44100\<rparr>\<rparr>) \<and>
   cursor (\<lparr>contents = [], cursor = 0, info = \<lparr>ftype = WAVE, channels = 2, samplerate = 44100\<rparr>,
      sample_size = 4, audioOffset = 0\<rparr>\<lparr>info := \<lparr>ftype = WAVE, channels = 2, samplerate = 44100\<rparr>\<rparr>) =
   nat (audioOffset (\<lparr>contents = [], cursor = 0, info = \<lparr>ftype = WAVE, channels = 2, samplerate = 44100\<rparr>,
      sample_size = 4, audioOffset = 0\<rparr>\<lparr>info := \<lparr>ftype = WAVE, channels = 2, samplerate = 44100\<rparr>\<rparr>))"
proof -
  have r: "read_file (no_hooks :: unit hooks) \<lparr>contents = [], cursor = 0, info = \<lparr>ftype = WAVE, channels = 2, samplerate = 44100\<rparr>,
      sample_size = 4, audioOffset = 0\<rparr> =
     Inr (\<lparr>contents = [], cursor = 0, info = \<lparr>ftype = WAVE, channels = 2, samplerate = 44100\<rparr>,
      sample_size = 4, audioOffset = 0\<rparr>\<lparr>info := \<lparr>ftype = WAVE, channels = 2, samplerate = 44100\<rparr>\<rparr>)"
    by (simp add: read_file_def header_read_eq scan_chunks_step select_type_def create_file_def
        tag_def dec_field_def)
  from read_file_cursor_at_payload [OF r] r show ?thesis by simp
qed

text \<open>
  C16 [read_file_unrecognized]: a header that is neither RIFF/WAVE nor FORM/AIFF
  and whose tag is not zero is rejected with \<open>UnrecognizedFileType\<close>, carrying
  the tag.
\<close>

theorem read_file_unrecognized:
  "header_read (s\<lparr>cursor := 0\<rparr>) = Inr (h :: 'c header, s1) \<Longrightarrow>
   \<not> (id_field h = tag ''RIFF'' \<and> format h = tag ''WAVE'') \<Longrightarrow>
   \<not> (id_field h = tag ''FORM'' \<and> format h = tag ''AIFF'') \<Longrightarrow>
   le_nat (id_field h) \<noteq> 0 \<Longrightarrow>
   read_file (H :: 'c hooks) s = Inl (UnrecognizedFileType (id_field h), s1)"
  by (auto simp: read_file_def select_type_def)


theorem read_file_unrecognized_witness:
  "read_file (no_hooks :: unit hooks) \<lparr>contents = tag ''abcd'' @ replicate 8 0, cursor = 0,
      info = \<lparr>ftype = WAVE, channels = 0, samplerate = 0\<rparr>, sample_size = 4, audioOffset = 0\<rparr> =
   Inl (UnrecognizedFileType (tag ''abcd''), \<lparr>contents = tag ''abcd'' @ replicate 8 0, cursor = 12,
      info = \<lparr>ftype = WAVE, channels = 0, samplerate = 0\<rparr>, sample_size = 4, audioOffset = 0\<rparr>)"
proof -
  have h: "header_read (\<lparr>contents = tag ''abcd'' @ replicate 8 0, cursor = 0,
      info = \<lparr>ftype = WAVE, channels = 0, samplerate = 0\<rparr>, sample_size = 4, audioOffset = 0\<rparr>\<lparr>cursor := 0\<rparr>) =
     Inr (\<lparr>id_field = tag ''abcd'', size_field = 0, offset = 0, format = replicate 4 0, chunks = [] :: unit chunk_obj list\<rparr>,
          \<lparr>contents = tag ''abcd'' @ replicate 8 0, cursor = 12,
      info = \<lparr>ftype = WAVE, channels = 0, samplerate = 0\<rparr>, sample_size = 4, audioOffset = 0\<rparr>)"
    by code_simp
  have n1: "\<not> (id_field (\<lparr>id_field = tag ''abcd'', size_field = 0, offset = 0, format = replicate 4 0,
                 chunks = [] :: unit chunk_obj list\<rparr>) = tag ''RIFF'' \<and>
              format (\<lparr>id_field = tag ''abcd'', size_field = 0, offset = 0, format = replicate 4 0,
                 chunks = [] :: unit chunk_obj list\<rparr>) = tag ''WAVE'')"
    by (simp add: tag_def)
  have n2: "\<not> (id_field (\<lparr>id_field = tag ''abcd'', size_field = 0, offset = 0, format = replicate 4 0,
                 chunks = [] :: unit chunk_obj list\<rparr>) = tag ''FORM'' \<and>
              format (\<lparr>id_field = tag ''abcd'', size_field = 0, offset = 0, format = replicate 4 0,
                 chunks = [] :: unit chunk_obj list\<rparr>) = tag ''AIFF'')"
    by (simp add: tag_def)
  have n3: "le_nat (id_field (\<lparr>id_field = tag ''abcd'', size_field = 0, offset = 0, format = replicate 4 0,
                 chunks = [] :: unit chunk_obj list\<rparr>)) \<noteq> 0"
    by (simp add: tag_def)
  from read_file_unrecognized [OF h n1 n2 n3, of no_hooks] show ?thesis
    by simp
qed


text \<open>
  C26 [read_file_aiff]: an AIFF container (FORM/AIFF) is recognised and then
  rejected with \<open>UnsupportedFileTypeRead\<close>.
\<close>

theorem read_file_aiff:
  "header_read (s\<lparr>cursor := 0\<rparr>) = Inr (h :: 'c header, s1) \<Longrightarrow>
   id_field h = tag ''FORM'' \<Longrightarrow> format h = tag ''AIFF'' \<Longrightarrow>
   read_file (H :: 'c hooks) s = Inl (UnsupportedFileTypeRead, s1\<lparr>info := (info s1)\<lparr>ftype := AIFF\<rparr>\<rparr>)"
  by (simp add: read_file_def select_type_def tag_def)


theorem read_file_aiff_witness:
  "read_file (no_hooks :: unit hooks) \<lparr>contents = tag ''FORM'' @ enc_field 4 (4 :: 32 word) @ tag ''AIFF'', cursor = 0,
      info = \<lparr>ftype = WAVE, channels = 0, samplerate = 0\<rparr>, sample_size = 4, audioOffset = 0\<rparr> =
   Inl (UnsupportedFileTypeRead, \<lparr>contents = tag ''FORM'' @ enc_field 4 (4 :: 32 word) @ tag ''AIFF'', cursor = 12,
      info = \<lparr>ftype = WAVE, channels = 0, samplerate = 0\<rparr>, sample_size = 4, audioOffset = 0\<rparr>\<lparr>info := \<lparr>ftype = AIFF, channels = 0, samplerate = 0\<rparr>\<rparr>)"
proof -
  have h: "header_read (\<lparr>contents = tag ''FORM'' @ enc_field 4 (4 :: 32 word) @ tag ''AIFF'', cursor = 0,
      info = \<lparr>ftype = WAVE, channels = 0, samplerate = 0\<rparr>, sample_size = 4, audioOffset = 0\<rparr>\<lparr>cursor := 0\<rparr>) =
     Inr (\<lparr>id_field = tag ''FORM'', size_field = 4, offset = 0, format = tag ''AIFF'', chunks = [] :: unit chunk_obj list\<rparr>,
          \<lparr>contents = tag ''FORM'' @ enc_field 4 (4 :: 32 word) @ tag ''AIFF'', cursor = 12,
      info = \<lparr>ftype = WAVE, channels = 0, samplerate = 0\<rparr>, sample_size = 4, audioOffset = 0\<rparr>)"
    by code_simp
  from read_file_aiff [OF h, of no_hooks] show ?thesis by simp
qed

text \<open>
  C7 [sf_seek_position]: for a positive sample size and a non-negative audio
  offset, \<open>seek(i)\<close> to a sample index \<open>i \<ge> 0\<close> returns \<open>i\<close>, and \<open>position()\<close>
  afterwards returns \<open>i\<close> too.
\<close>

theorem sf_seek_position:
  assumes w: "0 < sample_size s" and off: "0 \<le> audioOffset s" and p: "0 \<le> p"
  shows "fst (sf_seek p s) = p \<and> fst (sf_position (snd (sf_seek p s))) = p"
proof -
  have nn: "0 \<le> audioOffset s + p * sample_size s"
    using w off p by simp
  with w p show ?thesis
    by (simp add: sf_seek_fst sf_position_after_seek)
qed


theorem sf_seek_position_witness:
  "fst (sf_seek 3 \<lparr>contents = replicate 52 0, cursor = 0, info = \<lparr>ftype = WAVE, channels = 2, samplerate = 44100\<rparr>,
      sample_size = 4, audioOffset = 44\<rparr>) = 3 \<and> fst (sf_position (snd (sf_seek 3 \<lparr>contents = replicate 52 0, cursor = 0, info = \<lparr>ftype = WAVE, channels = 2, samplerate = 44100\<rparr>,
      sample_size = 4, audioOffset = 44\<rparr>))) = 3"
  using sf_seek_position [of "\<lparr>contents = replicate 52 0, cursor = 0, info = \<lparr>ftype = WAVE, channels = 2, samplerate = 44100\<rparr>,
      sample_size = 4, audioOffset = 44\<rparr>" 3] by simp

text \<open>
  C23 [sf_position_nonneg]: \<open>position()\<close> never reports a negative sample index.
\<close>

theorem sf_position_nonneg: "0 \<le> fst (sf_position s)"
  by (simp add: sf_position_def Let_def)


text \<open>
  C21 [sf_position_before_payload]: when the byte cursor is at least one sample
  before the payload, \<open>position()\<close> returns 0 and moves the stream to sample 0.
\<close>

theorem sf_position_before_payload:
  assumes w: "0 < sample_size s" and far: "bf_position s \<le> audioOffset s - sample_size s"
  shows "sf_position s = (0, s\<lparr>cursor := nat (audioOffset s)\<rparr>)"
proof -
  have "cdiv (bf_position s - audioOffset s) (sample_size s) < 0"
    using w far by (intro cdiv_neg) simp_all
  then show ?thesis
    by (simp add: sf_position_def sf_seek_def codec_simps Let_def)
qed


theorem sf_position_before_payload_witness:
  "sf_position \<lparr>contents = replicate 52 0, cursor = 0, info = \<lparr>ftype = WAVE, channels = 2, samplerate = 44100\<rparr>,
      sample_size = 4, audioOffset = 44\<rparr> = (0, \<lparr>contents = replicate 52 0, cursor = 0, info = \<lparr>ftype = WAVE, channels = 2, samplerate = 44100\<rparr>,
      sample_size = 4, audioOffset = 44\<rparr>\<lparr>cursor := 44\<rparr>)"
  using sf_position_before_payload [of "\<lparr>contents = replicate 52 0, cursor = 0, info = \<lparr>ftype = WAVE, channels = 2, samplerate = 44100\<rparr>,
      sample_size = 4, audioOffset = 44\<rparr>"] by (simp add: bf_position_def)

text \<open>
  C22 [sf_position_inside_header]: when the byte cursor is less than one sample
  before the payload, the truncating division yields 0, so \<open>position()\<close>
  returns 0 but leaves the stream where it is, before the payload (spec 4.6
  says it is moved to sample 0).
\<close>

theorem sf_position_inside_header:
  assumes w: "0 < sample_size s" and near: "audioOffset s - sample_size s < bf_position s"
    and before: "bf_position s < audioOffset s"
  shows "sf_position s = (0, s)"
proof -
  have "cdiv (bf_position s - audioOffset s) (sample_size s) = 0"
    using w near before by (intro cdiv_small) simp
  then show ?thesis
    by (simp add: sf_position_def Let_def)
qed


theorem sf_position_inside_header_witness:
  "sf_position \<lparr>contents = replicate 52 0, cursor = 42, info = \<lparr>ftype = WAVE, channels = 2, samplerate = 44100\<rparr>,
      sample_size = 4, audioOffset = 44\<rparr> = (0, \<lparr>contents = replicate 52 0, cursor = 42, info = \<lparr>ftype = WAVE, channels = 2, samplerate = 44100\<rparr>,
      sample_size = 4, audioOffset = 44\<rparr>)"
  using sf_position_inside_header [of "\<lparr>contents = replicate 52 0, cursor = 42, info = \<lparr>ftype = WAVE, channels = 2, samplerate = 44100\<rparr>,
      sample_size = 4, audioOffset = 44\<rparr>"] by (simp add: bf_position_def)

text \<open>
  C24 [sf_length_samples]: a file holding \<open>n\<close> samples after the audio offset has
  \<open>length() = n\<close>.
\<close>

theorem sf_length_samples:
  "0 < sample_size s \<Longrightarrow> bf_size s = audioOffset s + n * sample_size s \<Longrightarrow> sf_length s = n"
  by (simp add: sf_length_def codec_simps)


theorem sf_length_samples_witness: "sf_length \<lparr>contents = replicate 52 0, cursor = 0, info = \<lparr>ftype = WAVE, channels = 2, samplerate = 44100\<rparr>,
      sample_size = 4, audioOffset = 44\<rparr> = 2"
  using sf_length_samples [of "\<lparr>contents = replicate 52 0, cursor = 0, info = \<lparr>ftype = WAVE, channels = 2, samplerate = 44100\<rparr>,
      sample_size = 4, audioOffset = 44\<rparr>" 2] by (simp add: bf_size_def)

text \<open>
  C25 [bits32_length_never_4]: the fmt chunk declares 32-bit samples only when
  \<open>sample_size\<close> is 4 (modulo \<open>2^13\<close>), and \<open>length()\<close> divides by that same
  \<open>sample_size\<close>: a 32-byte payload (four stereo float frames, the scenario of
  spec 8) is never reported as 4 samples.
\<close>

theorem bits32_length_never_4:
  assumes b: "unat (bitsPerSample (fmt_values s)) = 32" and sz: "bf_size s = audioOffset s + 32"
  shows "sf_length s \<noteq> 4"
proof -
  let ?w = "sample_size s"
  have "nat ((?w * 8) mod 65536) = 32"
    using b by (simp add: fmt_values_def Let_def unat_eq_nat_uint uint_word_of_int_eq take_bit_eq_mod
        del: of_int_mult)
  then have a: "?w * 8 mod 65536 = 32" by simp
  have "?w * 8 mod (8192 * 8) = ?w mod 8192 * 8" by (rule mod_mult_mult2)
  with a have m: "?w mod 8192 = 4" by simp
  have l: "sf_length s = cdiv 32 ?w"
    using sz by (simp add: sf_length_def)
  show ?thesis
  proof (cases "0 < ?w")
    case False
    then have "cdiv 32 ?w \<le> 0"
    proof (cases "?w = 0")
      case False
      with \<open>\<not> 0 < ?w\<close> have "0 < - ?w" by simp
      then have "0 \<le> 32 div (- ?w)" by (simp add: pos_imp_zdiv_nonneg_iff)
      with False \<open>\<not> 0 < ?w\<close> show ?thesis by (simp add: cdiv_def)
    qed (simp add: cdiv_def)
    with l show ?thesis by simp
  next
    case True
    from mod_8192_4_cases [OF m True] show ?thesis
    proof
      assume "?w = 4"
      with l show ?thesis by (simp add: cdiv_def)
    next
      assume "8196 \<le> ?w"
      then have "cdiv 32 ?w = 0" by (intro cdiv_small) simp
      with l show ?thesis by simp
    qed
  qed
qed


theorem bits32_length_never_4_witness: "sf_length \<lparr>contents = replicate 76 0, cursor = 0, info = \<lparr>ftype = WAVE, channels = 2, samplerate = 44100\<rparr>,
      sample_size = 4, audioOffset = 44\<rparr> \<noteq> 4"
  using bits32_length_never_4 [of "\<lparr>contents = replicate 76 0, cursor = 0, info = \<lparr>ftype = WAVE, channels = 2, samplerate = 44100\<rparr>,
      sample_size = 4, audioOffset = 44\<rparr>"] by (simp add: fmt_values_def bf_size_def)

text \<open>
  C18 [read_file_adopting_embedder]: \<open>replace_custom_chunk\<close> is consulted for every
  child, after the promotion to \<open>WAVE_fmt\<close> and \<open>WAVE_data\<close> (spec 6 consults it
  for unrecognised children only): an embedder that adopts every chunk as its
  own makes \<open>read_file\<close> of a well-formed WAVE file succeed without publishing
  its format or locating its samples.
\<close>

theorem read_file_adopting_embedder:
  assumes img: "contents s = wave_image fm samples" and n: "length samples + 36 < 2 ^ 32"
    and adopt: "\<And>co. replace_custom_chunk (H :: 'c hooks) co = (fst co, Custom x)"
    and rd: "\<And>c s. custom_read_fields H x c s = s"
  shows "read_file H s = Inr (s\<lparr>cursor := nat (audioOffset s), info := (info s)\<lparr>ftype := WAVE\<rparr>\<rparr>)"
proof -
  from header_read_wave_image [OF img n] obtain k where h:
    "header_read (s\<lparr>cursor := 0\<rparr>) =
     Inr (\<lparr>id_field = tag ''RIFF'', size_field = word_of_nat (36 + length samples), offset = 0,
            format = tag ''WAVE'',
            chunks = [(\<lparr>id_field = tag ''fmt '', size_field = 16, offset = 12\<rparr>, Generic :: 'c chunk_kind),
                      (\<lparr>id_field = tag ''data'', size_field = word_of_nat (length samples), offset = 36\<rparr>, Generic)]\<rparr>,
          s\<lparr>cursor := k\<rparr>)"
    by blast
  have p: "\<And>co. promote H co = (fst co, Custom x)"
    by (simp add: promote_def adopt Let_def)
  show ?thesis
    using h by (simp add: read_file_def select_type_def p obj_read_def rd chunk_read_eq sf_seek_def
        bf_seek_eq Let_def)
qed

theorem read_file_adopting_embedder_witness:
  "read_file \<lparr>replace_custom_chunk = (\<lambda>co. (fst co, Custom ())), custom_read_fields = (\<lambda>x c s. s),
              custom_write_fields = (\<lambda>x c s. s), add_custom_chunks = (\<lambda>cs. cs)\<rparr>
     \<lparr>contents = wave_image \<lparr>audioFormat = 3, numChannels = 2, sampleRate = 44100, byteRate = 352800,
        blockAlign = 8, bitsPerSample = 32\<rparr> (replicate 8 0), cursor = 0,
      info = \<lparr>ftype = WAVE, channels = 0, samplerate = 0\<rparr>, sample_size = 4, audioOffset = 0\<rparr> =
   Inr \<lparr>contents = wave_image \<lparr>audioFormat = 3, numChannels = 2, sampleRate = 44100, byteRate = 352800,
        blockAlign = 8, bitsPerSample = 32\<rparr> (replicate 8 0), cursor = 0,
      info = \<lparr>ftype = WAVE, channels = 0, samplerate = 0\<rparr>, sample_size = 4, audioOffset = 0\<rparr>"
  using read_file_adopting_embedder [of "\<lparr>contents = wave_image \<lparr>audioFormat = 3, numChannels = 2, sampleRate = 44100, byteRate = 352800,
        blockAlign = 8, bitsPerSample = 32\<rparr> (replicate 8 0), cursor = 0,
      info = \<lparr>ftype = WAVE, channels = 0, samplerate = 0\<rparr>, sample_size = 4, audioOffset = 0\<rparr>"
      "\<lparr>audioFormat = 3, numChannels = 2, sampleRate = 44100, byteRate = 352800,
        blockAlign = 8, bitsPerSample = 32\<rparr>" "replicate 8 0"
      "\<lparr>replace_custom_chunk = (\<lambda>co. (fst co, Custom ())), custom_read_fields = (\<lambda>x c s. s),
              custom_write_fields = (\<lambda>x c s. s), add_custom_chunks = (\<lambda>cs. cs)\<rparr>" "()"]
  by simp

lemma data_obj_write_at_audio:
  "length (id_field c) = 4 \<Longrightarrow>
   audioOffset (obj_write H (c, Wave_data) f) = int (cursor (obj_write H (c, Wave_data) f))"
  by (simp add: obj_write_def chunk_write_def write_field_eq data_write_fields_def write_bytes_eq)

text \<open>
  C19 [write_file_cursor_at_audio]: whatever the embedder's custom chunks, after
  \<open>write_file\<close> of a WAVE file the stream is positioned exactly at the audio
  offset, right after the data chunk's header, where the samples are to be appended.
\<close>

theorem write_file_cursor_at_audio:
  "ftype (info s) = WAVE \<Longrightarrow> write_file H s = Inr s' \<Longrightarrow> audioOffset s' = int (cursor s')"
  by (auto simp: write_file_def header_write_def Let_def data_obj_write_at_audio new_chunk_def
      split: file_type.splits)

theorem write_file_cursor_at_audio_witness:
  "audioOffset ((\<lparr>contents = [], cursor = 0, info = \<lparr>ftype = WAVE, channels = 2, samplerate = 44100\<rparr>,
      sample_size = 4, audioOffset = 44\<rparr>)\<lparr>contents := overwrite 0 (written_header (fmt_values \<lparr>contents = [], cursor = 0, info = \<lparr>ftype = WAVE, channels = 2, samplerate = 44100\<rparr>,
      sample_size = 4, audioOffset = 44\<rparr>)
      (word_of_int (-44))) [], cursor := 44, audioOffset := 44\<rparr>) = 44"
proof -
  have w: "write_file (no_hooks :: unit hooks) \<lparr>contents = [], cursor = 0, info = \<lparr>ftype = WAVE, channels = 2, samplerate = 44100\<rparr>,
      sample_size = 4, audioOffset = 44\<rparr> = Inr ((\<lparr>contents = [], cursor = 0, info = \<lparr>ftype = WAVE, channels = 2, samplerate = 44100\<rparr>,
      sample_size = 4, audioOffset = 44\<rparr>)\<lparr>contents := overwrite 0 (written_header (fmt_values \<lparr>contents = [], cursor = 0, info = \<lparr>ftype = WAVE, channels = 2, samplerate = 44100\<rparr>,
      sample_size = 4, audioOffset = 44\<rparr>)
      (word_of_int (-44))) [], cursor := 44, audioOffset := 44\<rparr>)"
    by (simp add: write_file_no_hooks bf_size_def)
  from write_file_cursor_at_audio [OF _ w] show ?thesis by simp
qed

text \<open>
  C17 [write_file_non_wave]: \<open>write_file\<close> of a file that is not WAVE rewinds the
  stream to byte 0 and writes nothing: an AIFF file is rejected with
  \<open>UnsupportedTypeWrite\<close>, while a file whose type is still unknown (neither
  read nor set) is reported as written, since the \<open>switch\<close> on the type has
  no case for it.
\<close>

theorem write_file_non_wave:
  "ftype (info s) \<noteq> WAVE \<Longrightarrow>
   write_file H s = (if ftype (info s) = AIFF then Inl (UnsupportedTypeWrite, s\<lparr>cursor := 0\<rparr>)
                     else Inr (s\<lparr>cursor := 0\<rparr>))"
  by (cases "ftype (info s)") (simp_all add: write_file_def bf_seek_eq)

theorem write_file_non_wave_witness:
  "write_file (no_hooks :: unit hooks) \<lparr>contents = replicate 32 0, cursor = 32,
      info = \<lparr>ftype = AIFF, channels = 2, samplerate = 44100\<rparr>, sample_size = 4, audioOffset = 0\<rparr> = Inl (UnsupportedTypeWrite, (\<lparr>contents = replicate 32 0, cursor = 32,
      info = \<lparr>ftype = AIFF, channels = 2, samplerate = 44100\<rparr>, sample_size = 4, audioOffset = 0\<rparr>)\<lparr>cursor := 0\<rparr>) \<and>
   write_file (no_hooks :: unit hooks) \<lparr>contents = replicate 32 0, cursor = 32,
      info = \<lparr>ftype = Unknown, channels = 2, samplerate = 44100\<rparr>, sample_size = 4, audioOffset = 0\<rparr> = Inr ((\<lparr>contents = replicate 32 0, cursor = 32,
      info = \<lparr>ftype = Unknown, channels = 2, samplerate = 44100\<rparr>, sample_size = 4, audioOffset = 0\<rparr>)\<lparr>cursor := 0\<rparr>)"
  using write_file_non_wave [of "\<lparr>contents = replicate 32 0, cursor = 32,
      info = \<lparr>ftype = AIFF, channels = 2, samplerate = 44100\<rparr>, sample_size = 4, audioOffset = 0\<rparr>" "no_hooks :: unit hooks"]
    write_file_non_wave [of "\<lparr>contents = replicate 32 0, cursor = 32,
      info = \<lparr>ftype = Unknown, channels = 2, samplerate = 44100\<rparr>, sample_size = 4, audioOffset = 0\<rparr>" "no_hooks :: unit hooks"]
  by simp
text \<open>
  C15 [read_file_rejects_bits]: reading a WAVE file whose fmt chunk declares float
  samples of a width other than 32 bits fails with \<open>UnsupportedSampleSize\<close>, and
  the failed read leaves the object changed: typed WAVE, with the file's channel
  count and sample rate, the stream inside the fmt chunk, and the audio offset
  of before (the data chunk is never reached).  Spec 5 says there is no
  partial-success state.
\<close>

theorem read_file_rejects_bits:
  assumes img: "contents s = wave_image fm samples" and af: "unat (audioFormat fm) = 3"
    and bps: "unat (bitsPerSample fm) \<noteq> 32" and n: "length samples + 36 < 2 ^ 32"
  shows "read_file (no_hooks :: 'c hooks) s =
           Inl (UnsupportedSampleSize,
                s\<lparr>cursor := 36, info := (info s)\<lparr>ftype := WAVE, channels := uint (numChannels fm),
                  samplerate := sint (sampleRate fm)\<rparr>\<rparr>)"
proof -
  have w: "window 20 16 (contents s) = fmt_bytes fm"
    using img by (simp add: wave_image_fmt)
  show ?thesis
    using fmt_read_fields_bytes [of "s\<lparr>info := (info s)\<lparr>ftype := WAVE\<rparr>, cursor := 20\<rparr>" fm] w af bps
    by (simp add: read_file_wave_image [OF img n] Let_def)
qed

theorem read_file_rejects_bits_witness:
  "read_file (no_hooks :: unit hooks) \<lparr>contents = wave_image \<lparr>audioFormat = 3, numChannels = 2, sampleRate = 44100,
        byteRate = 176400, blockAlign = 4, bitsPerSample = 16\<rparr> (replicate 8 0), cursor = 0,
      info = \<lparr>ftype = Unknown, channels = 0, samplerate = 0\<rparr>, sample_size = 4, audioOffset = 0\<rparr> =
   Inl (UnsupportedSampleSize, \<lparr>contents = wave_image \<lparr>audioFormat = 3, numChannels = 2, sampleRate = 44100,
        byteRate = 176400, blockAlign = 4, bitsPerSample = 16\<rparr> (replicate 8 0), cursor = 36,
      info = \<lparr>ftype = WAVE, channels = 2, samplerate = 44100\<rparr>, sample_size = 4, audioOffset = 0\<rparr>)"
  using read_file_rejects_bits [of "\<lparr>contents = wave_image \<lparr>audioFormat = 3, numChannels = 2, sampleRate = 44100,
        byteRate = 176400, blockAlign = 4, bitsPerSample = 16\<rparr> (replicate 8 0), cursor = 0,
      info = \<lparr>ftype = Unknown, channels = 0, samplerate = 0\<rparr>, sample_size = 4, audioOffset = 0\<rparr>"
      "\<lparr>audioFormat = 3, numChannels = 2, sampleRate = 44100,
        byteRate = 176400, blockAlign = 4, bitsPerSample = 16\<rparr>" "replicate 8 0"]
  by simp


text \<open>
  C10 [write_file_custom_order]: for an embedder that appends custom chunks after
  the fmt chunk and writes a payload for each, \<open>write_file\<close> lays out the RIFF
  header, the fmt chunk, the custom chunks in the embedder's order, and the data
  chunk's header last (spec 6), and the audio offset and the stream follow the
  custom chunks.
\<close>

theorem write_file_custom_order:
  assumes t: "ftype (info s) = WAVE"
    and a: "add_custom_chunks H = (\<lambda>cs. cs @ map (\<lambda>(c, x). (c, Custom x)) ys)"
    and w: "custom_write_fields H = (\<lambda>x c f. write_bytes (pl x) f)"
  shows "write_file H s =
     Inr (s\<lparr>contents := overwrite 0
                (tag ''RIFF'' @ enc_field 4 (0 :: 32 word) @ tag ''WAVE'' @
                 tag ''fmt '' @ enc_field 4 (0 :: 32 word) @ fmt_bytes (fmt_values s) @
                 custom_bytes pl ys @
                 tag ''data'' @ enc_field 4 (word_of_int (bf_size s - audioOffset s) :: 32 word))
                (contents s),
            cursor := 44 + length (custom_bytes pl ys),
            audioOffset := 44 + int (length (custom_bytes pl ys))\<rparr>)"
proof -
  let ?F = "\<lambda>(c, x). (c, Custom x)"
  let ?g = "\<lambda>(c, x). id_field c @ enc_field 4 (size_field c) @ pl x"
  have cw: "\<And>y f. (obj_write H \<circ> ?F) y f = write_bytes (?g y) f"
    by (auto simp: obj_write_def chunk_write_def write_field_eq write_bytes_write_bytes w split: prod.splits)
  have cs: "fold (obj_write H) (map ?F ys) f = write_bytes (custom_bytes pl ys) f" for f :: soundfile
    unfolding fold_map custom_bytes_def by (rule fold_write_bytes [OF cw])
  show ?thesis
    using t
    by (simp add: write_file_def header_write_def a cs obj_write_def chunk_write_def new_chunk_def
        fmt_write_fields_eq data_write_fields_def codec_simps bf_size_def Let_def chunk.truncate_def)
       (simp add: write_bytes_eq tag_def)
qed


theorem write_file_custom_order_witness:
  "write_file ((no_hooks :: unit hooks)\<lparr>add_custom_chunks := \<lambda>cs. cs @ map (\<lambda>(c, x). (c, Custom x))
        [(\<lparr>id_field = tag ''otto'', size_field = 4, offset = 0\<rparr>, ())],
      custom_write_fields := \<lambda>x c f. write_bytes ((\<lambda>x. tag ''abcd'') x) f\<rparr>) \<lparr>contents = [], cursor = 0, info = \<lparr>ftype = WAVE, channels = 2, samplerate = 44100\<rparr>,
      sample_size = 4, audioOffset = 0\<rparr> =
     Inr ((\<lparr>contents = [], cursor = 0, info = \<lparr>ftype = WAVE, channels = 2, samplerate = 44100\<rparr>,
      sample_size = 4, audioOffset = 0\<rparr>)\<lparr>contents := overwrite 0
                (tag ''RIFF'' @ enc_field 4 (0 :: 32 word) @ tag ''WAVE'' @
                 tag ''fmt '' @ enc_field 4 (0 :: 32 word) @ fmt_bytes (fmt_values \<lparr>contents = [], cursor = 0, info = \<lparr>ftype = WAVE, channels = 2, samplerate = 44100\<rparr>,
      sample_size = 4, audioOffset = 0\<rparr>) @
                 custom_bytes (\<lambda>x. tag ''abcd'') [(\<lparr>id_field = tag ''otto'', size_field = 4, offset = 0\<rparr>, ())] @
                 tag ''data'' @ enc_field 4 (word_of_int (bf_size \<lparr>contents = [], cursor = 0, info = \<lparr>ftype = WAVE, channels = 2, samplerate = 44100\<rparr>,
      sample_size = 4, audioOffset = 0\<rparr> - audioOffset \<lparr>contents = [], cursor = 0, info = \<lparr>ftype = WAVE, channels = 2, samplerate = 44100\<rparr>,
      sample_size = 4, audioOffset = 0\<rparr>) :: 32 word))
                [],
            cursor := 44 + length (custom_bytes (\<lambda>x. tag ''abcd'') [(\<lparr>id_field = tag ''otto'', size_field = 4, offset = 0\<rparr>, ())]),
            audioOffset := 44 + int (length (custom_bytes (\<lambda>x. tag ''abcd'') [(\<lparr>id_field = tag ''otto'', size_field = 4, offset = 0\<rparr>, ())]))\<rparr>)"
  using write_file_custom_order [of "\<lparr>contents = [], cursor = 0, info = \<lparr>ftype = WAVE, channels = 2, samplerate = 44100\<rparr>,
      sample_size = 4, audioOffset = 0\<rparr>" "((no_hooks :: unit hooks)\<lparr>add_custom_chunks := \<lambda>cs. cs @ map (\<lambda>(c, x). (c, Custom x))
        [(\<lparr>id_field = tag ''otto'', size_field = 4, offset = 0\<rparr>, ())],
      custom_write_fields := \<lambda>x c f. write_bytes ((\<lambda>x. tag ''abcd'') x) f\<rparr>)" "[(\<lparr>id_field = tag ''otto'', size_field = 4, offset = 0\<rparr>, ())]" "(\<lambda>x. tag ''abcd'')"]
  by simp


text \<open>
  C11 [read_file_skips_unknown]: a WAVE file with a chunk of another type between
  its fmt and data chunks (spec 4.3: the scan skips it by its declared size) is
  read like the minimal one: the unknown chunk stays generic and is not
  interpreted, the format is published, and the samples are located after the
  data chunk's header, past the unknown chunk.
\<close>

theorem read_file_skips_unknown:
  assumes img: "contents s = container_bytes (tag ''RIFF'') (tag ''WAVE'')
                  [(tag ''fmt '', fmt_bytes fm), (t, q), (tag ''data'', samples)]"
    and t: "length t = 4" "t \<noteq> tag ''fmt ''" "t \<noteq> tag ''data''"
    and af: "unat (audioFormat fm) = 3" and bps: "unat (bitsPerSample fm) = 32"
    and n: "length q + length samples + 44 < 2 ^ 32"
  shows "read_file (no_hooks :: 'c hooks) s =
           Inr (s\<lparr>cursor := 52 + length q,
                  info := (info s)\<lparr>ftype := WAVE, channels := uint (numChannels fm),
                                   samplerate := sint (sampleRate fm)\<rparr>,
                  audioOffset := 52 + int (length q)\<rparr>)"
proof -
  let ?ps = "[(tag ''fmt '', fmt_bytes fm), (t, q), (tag ''data'', samples)]"
  have wf: "well_formed_chunks ?ps"
    using t n by (simp add: well_formed_chunks_def tag_def)
  have sz: "4 + length (layout ?ps) < 2 ^ 32"
    using n t by (simp add: layout_def chunk_bytes_def)
  have w: "window (cursor (s\<lparr>cursor := 0\<rparr>)) (length (container_bytes (tag ''RIFF'') (tag ''WAVE'') ?ps))
             (contents (s\<lparr>cursor := 0\<rparr>)) = container_bytes (tag ''RIFF'') (tag ''WAVE'') ?ps"
    using img by simp
  from header_read_container [OF wf _ _ sz w] obtain f' where
    r: "header_read (s\<lparr>cursor := 0\<rparr>) =
        Inr (\<lparr>id_field = tag ''RIFF'', size_field = word_of_nat (4 + length (layout ?ps)), offset = 0,
               format = tag ''WAVE'', chunks = map (\<lambda>c. (c, Generic :: 'c chunk_kind)) (layout_chunks 12 ?ps)\<rparr>, f')"
    by (auto simp: tag_def)
  from header_read_frame [OF r] have "f' = s\<lparr>cursor := cursor f'\<rparr>"
    by simp
  then obtain k where f': "f' = s\<lparr>cursor := k\<rparr>"
    by blast
  have wfm: "window 20 16 (contents s) = fmt_bytes fm"
    using img by (simp add: window_take_drop container_bytes_def layout_def chunk_bytes_def tag_def)
  have f: "fmt_read_fields (s\<lparr>info := (info s)\<lparr>ftype := WAVE\<rparr>, cursor := 20\<rparr>) =
             Inr (fm, s\<lparr>cursor := 36, info := (info s)\<lparr>ftype := WAVE, channels := uint (numChannels fm),
                  samplerate := sint (sampleRate fm)\<rparr>\<rparr>)"
    using fmt_read_fields_bytes [of "s\<lparr>info := (info s)\<lparr>ftype := WAVE\<rparr>, cursor := 20\<rparr>" fm] wfm af bps
    by (simp add: Let_def)
  have tags: "tag ''fmt '' \<noteq> tag ''data''" "t \<noteq> tag ''fmt ''" "t \<noteq> tag ''data''"
    using tag_fmt_data t by simp_all
  show ?thesis
    using r f' f tags
    by (simp add: read_file_def select_type_def promote_no_hooks obj_read_def chunk_read_eq
        data_read_fields_def bf_seek_eq sf_seek_def Let_def chunk_at_def)
qed

theorem read_file_skips_unknown_witness:
  "read_file (no_hooks :: unit hooks) \<lparr>contents = container_bytes (tag ''RIFF'') (tag ''WAVE'')
        [(tag ''fmt '', fmt_bytes \<lparr>audioFormat = 3, numChannels = 2, sampleRate = 44100, byteRate = 352800,
        blockAlign = 8, bitsPerSample = 32\<rparr>), (tag ''LIST'', replicate 6 0), (tag ''data'', replicate 8 0)], cursor = 0,
      info = \<lparr>ftype = Unknown, channels = 0, samplerate = 0\<rparr>, sample_size = 4, audioOffset = 0\<rparr> =
     Inr ((\<lparr>contents = container_bytes (tag ''RIFF'') (tag ''WAVE'')
        [(tag ''fmt '', fmt_bytes \<lparr>audioFormat = 3, numChannels = 2, sampleRate = 44100, byteRate = 352800,
        blockAlign = 8, bitsPerSample = 32\<rparr>), (tag ''LIST'', replicate 6 0), (tag ''data'', replicate 8 0)], cursor = 0,
      info = \<lparr>ftype = Unknown, channels = 0, samplerate = 0\<rparr>, sample_size = 4, audioOffset = 0\<rparr>)\<lparr>cursor := 58,
        info := \<lparr>ftype = WAVE, channels = 2, samplerate = 44100\<rparr>, audioOffset := 58\<rparr>)"
  using read_file_skips_unknown [of "\<lparr>contents = container_bytes (tag ''RIFF'') (tag ''WAVE'')
        [(tag ''fmt '', fmt_bytes \<lparr>audioFormat = 3, numChannels = 2, sampleRate = 44100, byteRate = 352800,
        blockAlign = 8, bitsPerSample = 32\<rparr>), (tag ''LIST'', replicate 6 0), (tag ''data'', replicate 8 0)], cursor = 0,
      info = \<lparr>ftype = Unknown, channels = 0, samplerate = 0\<rparr>, sample_size = 4, audioOffset = 0\<rparr>" "\<lparr>audioFormat = 3, numChannels = 2, sampleRate = 44100, byteRate = 352800,
        blockAlign = 8, bitsPerSample = 32\<rparr>" "tag ''LIST''" "replicate 6 0" "replicate 8 0"]
  by (simp add: tag_def)


section \<open>Writing and reading back\<close>

text \<open>
  C3 [write_then_read_empty]: a file written by \<open>write_file\<close> declares a RIFF size
  of 0, so \<open>read_file\<close> of the written bytes finds no children: it succeeds but
  neither reads the fmt chunk nor locates the data, and the reader's channel
  count, sample rate and audio offset are left as they were (spec 8's round trip
  expects them restored).
\<close>

theorem write_then_read_empty:
  assumes t: "ftype (info s) = WAVE" and w: "write_file (no_hooks :: 'c hooks) s = Inr s1"
  shows "read_file (no_hooks :: 'd hooks) (r\<lparr>contents := contents s1\<rparr>) =
           Inr (r\<lparr>contents := contents s1, cursor := nat (audioOffset r), info := (info r)\<lparr>ftype := WAVE\<rparr>\<rparr>)"
proof -
  let ?img = "written_header (fmt_values s) (word_of_int (bf_size s - audioOffset s))"
  from w have c: "contents s1 = overwrite 0 ?img (contents s)"
    by (auto simp: write_file_no_hooks [OF t])
  have riff: "window 0 4 (contents s1) = tag ''RIFF''"
    using window_overwrite_inside [of 0 4 ?img 0 "contents s"] c by (simp add: written_header_def tag_def)
  have sz: "window 4 4 (contents s1) = enc_field 4 (0 :: 32 word)"
    using window_overwrite_inside [of 4 4 ?img 0 "contents s"] c by (simp add: written_header_def tag_def)
  have wave: "window 8 4 (contents s1) = tag ''WAVE''"
    using window_overwrite_inside [of 8 4 ?img 0 "contents s"] c by (simp add: written_header_def tag_def)
  show ?thesis
    by (simp add: read_file_def header_read_eq scan_chunks_step riff sz wave select_type_def sf_seek_def
        bf_seek_eq Let_def)
qed

theorem write_then_read_empty_witness:
  "read_file (no_hooks :: unit hooks) ((\<lparr>contents = [], cursor = 0, info = \<lparr>ftype = WAVE, channels = 0, samplerate = 0\<rparr>,
      sample_size = 4, audioOffset = 0\<rparr>)\<lparr>contents := overwrite 0 (written_header (fmt_values \<lparr>contents = [], cursor = 0, info = \<lparr>ftype = WAVE, channels = 2, samplerate = 44100\<rparr>,
      sample_size = 4, audioOffset = 0\<rparr>) 0) []\<rparr>) =
   Inr ((\<lparr>contents = [], cursor = 0, info = \<lparr>ftype = WAVE, channels = 0, samplerate = 0\<rparr>,
      sample_size = 4, audioOffset = 0\<rparr>)\<lparr>contents := overwrite 0 (written_header (fmt_values \<lparr>contents = [], cursor = 0, info = \<lparr>ftype = WAVE, channels = 2, samplerate = 44100\<rparr>,
      sample_size = 4, audioOffset = 0\<rparr>) 0) [], cursor := 0,
          info := \<lparr>ftype = WAVE, channels = 0, samplerate = 0\<rparr>\<rparr>)"
proof -
  have w: "write_file (no_hooks :: unit hooks) \<lparr>contents = [], cursor = 0, info = \<lparr>ftype = WAVE, channels = 2, samplerate = 44100\<rparr>,
      sample_size = 4, audioOffset = 0\<rparr> =
      Inr ((\<lparr>contents = [], cursor = 0, info = \<lparr>ftype = WAVE, channels = 2, samplerate = 44100\<rparr>,
      sample_size = 4, audioOffset = 0\<rparr>)\<lparr>contents := overwrite 0 (written_header (fmt_values \<lparr>contents = [], cursor = 0, info = \<lparr>ftype = WAVE, channels = 2, samplerate = 44100\<rparr>,
      sample_size = 4, audioOffset = 0\<rparr>) 0) [], cursor := 44, audioOffset := 44\<rparr>)"
    by (simp add: write_file_no_hooks bf_size_def)
  from write_then_read_empty [OF _ w, of "\<lparr>contents = [], cursor = 0, info = \<lparr>ftype = WAVE, channels = 0, samplerate = 0\<rparr>,
      sample_size = 4, audioOffset = 0\<rparr>"] show ?thesis by simp
qed

text \<open>
  C4 [read_then_write_wave]: reading a well-formed WAVE file of 32-bit float samples
  whose fmt fields are the ones \<open>write_file\<close> derives from its channel count and
  sample rate (sample size 4), and then writing it back, reproduces the file byte
  for byte except the RIFF size (bytes 4-7) and the fmt chunk's size (bytes
  16-19), which become zero; the samples and their count are kept.
\<close>

theorem read_then_write_wave:
  assumes img: "contents s = wave_image fm samples" and af: "unat (audioFormat fm) = 3"
    and bps: "unat (bitsPerSample fm) = 32" and n: "length samples + 36 < 2 ^ 32"
    and fmt: "fmt_values (s\<lparr>info := (info s)\<lparr>channels := uint (numChannels fm),
                 samplerate := sint (sampleRate fm)\<rparr>\<rparr>) = fm"
  shows "\<exists>s1 s2. read_file (no_hooks :: 'c hooks) s = Inr s1 \<and> write_file (no_hooks :: 'd hooks) s1 = Inr s2 \<and>
           contents s2 = overwrite 4 (enc_field 4 (0 :: 32 word))
                           (overwrite 16 (enc_field 4 (0 :: 32 word)) (wave_image fm samples)) \<and>
           audioOffset s2 = 44 \<and> sf_length s2 = sf_length s1"
proof -
  let ?s1 = "s\<lparr>cursor := 44, info := (info s)\<lparr>ftype := WAVE, channels := uint (numChannels fm),
                  samplerate := sint (sampleRate fm)\<rparr>, audioOffset := 44\<rparr>"
  have r: "read_file (no_hooks :: 'c hooks) s = Inr ?s1"
    by (rule read_file_wave_state [OF img af bps n])
  have f1: "fmt_values ?s1 = fm"
    using fmt by (simp add: fmt_values_def)
  have sz: "word_of_int (bf_size ?s1 - audioOffset ?s1) = (word_of_nat (length samples) :: 32 word)"
    using img by (simp add: bf_size_def)
  have hdr: "overwrite 0 (written_header fm (word_of_nat (length samples))) (contents ?s1) =
             written_header fm (word_of_nat (length samples)) @ samples"
  proof -
    have "contents ?s1 = take 44 (wave_image fm samples) @ samples"
      using img by (simp add: wave_image_def container_bytes_def layout_def chunk_bytes_def)
    then show ?thesis
      by (simp add: overwrite_prefix)
  qed
  let ?s2 = "?s1\<lparr>contents := written_header fm (word_of_nat (length samples)) @ samples,
                  cursor := 44, audioOffset := 44\<rparr>"
  have w: "write_file (no_hooks :: 'd hooks) ?s1 = Inr ?s2"
    using write_file_no_hooks [of ?s1] f1 sz hdr by simp
  have l: "sf_length ?s2 = sf_length ?s1"
    using img by (simp add: sf_length_def bf_size_def)
  show ?thesis
    using r w l by (simp add: wave_image_sizes_zeroed)
qed

theorem read_then_write_wave_witness:
  "\<exists>s1 s2. read_file (no_hooks :: unit hooks) \<lparr>contents = wave_image \<lparr>audioFormat = 3, numChannels = 2,
        sampleRate = 44100, byteRate = 352800, blockAlign = 8, bitsPerSample = 32\<rparr> (replicate 8 0), cursor = 0,
      info = \<lparr>ftype = Unknown, channels = 0, samplerate = 0\<rparr>, sample_size = 4, audioOffset = 0\<rparr> = Inr s1 \<and>
     write_file (no_hooks :: unit hooks) s1 = Inr s2 \<and>
     contents s2 = overwrite 4 (enc_field 4 (0 :: 32 word)) (overwrite 16 (enc_field 4 (0 :: 32 word))
       (wave_image \<lparr>audioFormat = 3, numChannels = 2, sampleRate = 44100, byteRate = 352800, blockAlign = 8,
          bitsPerSample = 32\<rparr> (replicate 8 0))) \<and>
     audioOffset s2 = 44 \<and> sf_length s2 = sf_length s1"
  using read_then_write_wave [of "\<lparr>contents = wave_image \<lparr>audioFormat = 3, numChannels = 2,
        sampleRate = 44100, byteRate = 352800, blockAlign = 8, bitsPerSample = 32\<rparr> (replicate 8 0), cursor = 0,
      info = \<lparr>ftype = Unknown, channels = 0, samplerate = 0\<rparr>, sample_size = 4, audioOffset = 0\<rparr>"
      "\<lparr>audioFormat = 3, numChannels = 2, sampleRate = 44100, byteRate = 352800, blockAlign = 8,
          bitsPerSample = 32\<rparr>" "replicate 8 0"]
  by (simp add: fmt_values_def)

end
