(* ===== verification/SoundFileMachine.thy ===== *)
theory SoundFileMachine
  imports SoundFile
begin

text \<open>
  A \<open>SoundFile\<close> object as its clients drive it: a sequence of calls to
  \<open>read_file\<close>, \<open>write_file\<close>, \<open>seek\<close>, \<open>position\<close> and the inherited byte
  transfers that move samples.  Each call runs on the state the previous one
  left; a call that throws ends the sequence with the state at the throw.
\<close>

section \<open>Client calls\<close>

datatype sf_op = ReadFile | WriteFile | Seek int | Position | WriteSamples "byte list" | ReadSamples nat

fun sf_apply :: "'c hooks \<Rightarrow> sf_op \<Rightarrow> soundfile \<Rightarrow> soundfile outcome" where
  "sf_apply H ReadFile s = read_file H s"
| "sf_apply H WriteFile s = write_file H s"
| "sf_apply H (Seek p) s = Inr (snd (sf_seek p s))"
| "sf_apply H Position s = Inr (snd (sf_position s))"
| "sf_apply H (WriteSamples bs) s = Inr (write_bytes bs s)"
| "sf_apply H (ReadSamples n) s = Inr (snd (read_bytes n s))"

text \<open>
  A sequence of calls as a client makes them: each call runs on the state the
  previous one left, and the first exception ends the sequence with the state
  at the throw (the error-and-state composition of the calls).
\<close>

fun sf_run :: "'c hooks \<Rightarrow> sf_op list \<Rightarrow> soundfile \<Rightarrow> soundfile outcome" where
  "sf_run H [] s = Inr s"
| "sf_run H (op # ops) s = (case sf_apply H op s of Inl err \<Rightarrow> Inl err | Inr s' \<Rightarrow> sf_run H ops s')"

end
