(* ===== verification/Pingpong.thy ===== *)
theory Pingpong
  imports Complex_Main Prelude
begin

text \<open>
  The ping-pong delay effect (\<^verbatim>\<open>src/src/engines/fx/pingpong/pingpong.cpp\<close>):
  the input handlers of its screen \<open>PingpongScreen\<close> (\<open>rotary\<close>, lines 36-45,
  and \<open>keypress\<close>, lines 47-58) and the engine (constructor, lines 23-26, and
  \<open>process\<close>, lines 29-32), which share the parameters: the screen changes the
  engine's \<open>props\<close> and the Faust DSP reads them.  The engine's parameters
  (\<open>Pingpong::Props\<close>, declared in \<^verbatim>\<open>pingpong.hpp\<close>, not among the sources)
  are a record; each parameter's \<open>step(clicks)\<close> belongs to the property
  library, so the four step functions are a parameter of the model
  (\<open>pp_steps\<close>), as the code only calls them.  The drawing is in
  \<open>PingpongDraw\<close>.
\<close>

section \<open>Parameters and input events\<close>

record pp_props =
  delaytime :: real
  feedback :: real
  tone :: real
  spread :: real
  bpm_follow :: bool
  delay_level :: "nat \<Rightarrow> real"

record pp_steps =
  step_delaytime :: "int \<Rightarrow> real \<Rightarrow> real"
  step_feedback :: "int \<Rightarrow> real \<Rightarrow> real"
  step_tone :: "int \<Rightarrow> real \<Rightarrow> real"
  step_spread :: "int \<Rightarrow> real \<Rightarrow> real"

text \<open>The rotaries \<open>rotary\<close> switches on, and the keys \<open>keypress\<close> distinguishes.\<close>

datatype rotary = Blue | Green | White | Red

record rotary_event =
  rot :: rotary
  clicks :: int

datatype key = blue_click | green_click | white_click | red_click | other_key nat

section \<open>PingpongScreen::rotary and PingpongScreen::keypress\<close>

definition pp_rotary :: "pp_steps \<Rightarrow> rotary_event \<Rightarrow> pp_props \<Rightarrow> pp_props" where
  "pp_rotary S ev p =
     (case rot ev of
        Blue \<Rightarrow> p\<lparr>delaytime := step_delaytime S (clicks ev) (delaytime p)\<rparr>
      | Green \<Rightarrow> p\<lparr>feedback := step_feedback S (clicks ev) (feedback p)\<rparr>
      | White \<Rightarrow> p\<lparr>tone := step_tone S (clicks ev) (tone p)\<rparr>
      | Red \<Rightarrow> p\<lparr>spread := step_spread S (clicks ev) (spread p)\<rparr>)"

text \<open>The four clicks fall through to one toggle of \<open>bpm_follow\<close>; other keys are not handled.\<close>

definition pp_keypress :: "key \<Rightarrow> pp_props \<Rightarrow> bool \<times> pp_props" where
  "pp_keypress k p =
     (case k of
        blue_click \<Rightarrow> (True, p\<lparr>bpm_follow := \<not> bpm_follow p\<rparr>)
      | green_click \<Rightarrow> (True, p\<lparr>bpm_follow := \<not> bpm_follow p\<rparr>)
      | white_click \<Rightarrow> (True, p\<lparr>bpm_follow := \<not> bpm_follow p\<rparr>)
      | red_click \<Rightarrow> (True, p\<lparr>bpm_follow := \<not> bpm_follow p\<rparr>)
      | other_key n \<Rightarrow> (False, p))"

text \<open>The screen receives a sequence of events, each handled in turn.\<close>

datatype ui_event = Rotary rotary_event | Keypress key

fun pp_event :: "pp_steps \<Rightarrow> ui_event \<Rightarrow> pp_props \<Rightarrow> pp_props" where
  "pp_event S (Rotary ev) p = pp_rotary S ev p"
| "pp_event S (Keypress k) p = snd (pp_keypress k p)"

definition pp_run :: "pp_steps \<Rightarrow> ui_event list \<Rightarrow> pp_props \<Rightarrow> pp_props" where
  "pp_run S es p = fold (pp_event S) es p"

section \<open>The engine: constructor, screen and process\<close>

text \<open>
  The \<open>Pingpong\<close> engine (lines 23-26) owns the parameters \<open>props\<close> and the
  Faust DSP \<open>faust_\<close>, constructed with \<open>props\<close> so that its controls read the
  parameters' current values; the DSP is a parameter of the model, a function of
  the parameter values and an audio block.  The initial parameter values are
  declared in \<^verbatim>\<open>pingpong.hpp\<close>, outside the sources, and are a parameter of
  the constructor.
\<close>

record 'd pp_engine =
  eng_name :: string
  eng_props :: pp_props
  eng_faust :: "pp_props \<Rightarrow> 'd \<Rightarrow> 'd"

definition pp_new :: "pp_props \<Rightarrow> (pp_props \<Rightarrow> 'd \<Rightarrow> 'd) \<Rightarrow> 'd pp_engine" where
  "pp_new p0 faust = \<lparr>eng_name = ''PingPong'', eng_props = p0, eng_faust = faust\<rparr>"

text \<open>
  \<open>PingpongScreen\<close> (lines 15-21) is an \<open>EngineScreen\<close> built with the engine
  (\<open>this\<close>): its handlers change the engine's own \<open>props\<close> through the
  reference \<open>engine.props\<close>, so an event updates the parameters the DSP reads.
\<close>

definition pp_screen_event :: "pp_steps \<Rightarrow> ui_event \<Rightarrow> 'd pp_engine \<Rightarrow> 'd pp_engine" where
  "pp_screen_event S ev e = e\<lparr>eng_props := pp_event S ev (eng_props e)\<rparr>"

text \<open>
  \<open>process\<close> (lines 29-32) hands each block of audio to the DSP, which computes
  it with the current parameter values, and returns its output.
\<close>

definition pp_process :: "'d pp_engine \<Rightarrow> 'd \<Rightarrow> 'd" where
  "pp_process e data = eng_faust e (eng_props e) data"

text \<open>The events that \<open>keypress\<close> handles: the four rotary clicks.\<close>

fun is_click :: "ui_event \<Rightarrow> bool" where
  "is_click (Keypress (other_key n)) = False"
| "is_click (Keypress k) = True"
| "is_click (Rotary ev) = False"

text \<open>A step function keeps a parameter within \<open>[0, 1]\<close>.\<close>

definition keeps_unit :: "(int \<Rightarrow> real \<Rightarrow> real) \<Rightarrow> bool" where
  "keeps_unit st = (\<forall>c v. 0 \<le> v \<and> v \<le> 1 \<longrightarrow> 0 \<le> st c v \<and> st c v \<le> 1)"

section \<open>Lemmas\<close>

lemma bpm_follow_pp_rotary [simp]: "bpm_follow (pp_rotary S ev p) = bpm_follow p"
  by (simp add: pp_rotary_def split: rotary.split)

lemma delay_level_pp_event [simp]: "delay_level (pp_event S e p) = delay_level p"
  by (cases e)
     (auto simp: pp_rotary_def pp_keypress_def split: rotary.split key.split)

lemma pp_event_unit:
  "keeps_unit (step_feedback S) \<Longrightarrow> keeps_unit (step_tone S) \<Longrightarrow>
   0 \<le> feedback p \<and> feedback p \<le> 1 \<and> 0 \<le> tone p \<and> tone p \<le> 1 \<Longrightarrow>
   0 \<le> feedback (pp_event S e p) \<and> feedback (pp_event S e p) \<le> 1 \<and>
   0 \<le> tone (pp_event S e p) \<and> tone (pp_event S e p) \<le> 1"
  by (cases e)
     (auto simp: pp_rotary_def pp_keypress_def keeps_unit_def split: rotary.split key.split)

lemma pp_run_unit:
  "keeps_unit (step_feedback S) \<Longrightarrow> keeps_unit (step_tone S) \<Longrightarrow>
   0 \<le> feedback p \<and> feedback p \<le> 1 \<and> 0 \<le> tone p \<and> tone p \<le> 1 \<Longrightarrow>
   0 \<le> feedback (pp_run S es p) \<and> feedback (pp_run S es p) \<le> 1 \<and>
   0 \<le> tone (pp_run S es p) \<and> tone (pp_run S es p) \<le> 1 \<and> delay_level (pp_run S es p) = delay_level p"
proof (induction es arbitrary: p)
  case Nil
  then show ?case by (simp add: pp_run_def)
next
  case (Cons e es)
  from Cons.IH [OF Cons.prems(1,2) pp_event_unit [OF Cons.prems]] show ?case
    by (simp add: pp_run_def)
qed

section \<open>Properties of the input handling\<close>

text \<open>
  C29 [pp_run_bpm_follow]: after any sequence of events, \<open>bpm_follow\<close> has been
  toggled once per rotary click and by nothing else.
\<close>

theorem pp_run_bpm_follow:
  "bpm_follow (pp_run S es p) = (bpm_follow p \<noteq> odd (length (filter is_click es)))"
proof (induction es arbitrary: p)
  case Nil
  then show ?case by (simp add: pp_run_def)
next
  case (Cons e es)
  have "bpm_follow (pp_event S e p) = (bpm_follow p \<noteq> is_click e)"
    by (cases e rule: is_click.cases) (simp_all add: pp_keypress_def)
  with Cons.IH [of "pp_event S e p"] show ?case
    by (cases "is_click e") (simp_all add: pp_run_def)
qed

text \<open>
  C30 [pp_keypress_toggle]: \<open>keypress\<close> reports a key as handled exactly when it is
  one of the four rotary clicks, and handling the same key twice restores the
  parameters.
\<close>

theorem pp_keypress_toggle:
  "fst (pp_keypress k p) = is_click (Keypress k) \<and> snd (pp_keypress k (snd (pp_keypress k p))) = p"
  by (cases k) (simp_all add: pp_keypress_def)

end
