(* ===== verification/PingpongDraw.thy ===== *)
theory PingpongDraw
  imports Pingpong
begin

text \<open>
  \<open>PingpongScreen::draw\<close> (\<^verbatim>\<open>src/src/engines/fx/pingpong/pingpong.cpp\<close>,
  lines 60-100) as the list of canvas commands it issues, with the C++
  arithmetic of the code: \<open>int\<close> arithmetic on integers, assignments of a
  float to an \<open>int\<close> truncating towards zero (\<open>float_to_int\<close>), and every
  single- or double-precision operation computed as the rounding of its exact
  real result, as IEEE 754 defines it.  The two roundings (to \<open>float\<close> and to
  \<open>double\<close>) are parameters of the model (\<open>fp_round\<close>); the theorems hold
  for every pair that is monotone and exact on the half-integers of magnitude
  at most \<open>2^23\<close> (\<open>fp_ok\<close>), which IEEE round-to-nearest in binary32 and
  binary64 is.  \<open>exact_fp\<close>, no rounding at all, is one such pair.  The tap
  levels are the values \<open>refresh_links\<close> leaves in \<open>delay_level\<close>.
\<close>

section \<open>Float arithmetic\<close>

record fp_round =
  to_float :: "real \<Rightarrow> real"
  to_double :: "real \<Rightarrow> real"

text \<open>
  A rounding keeps the order of its arguments and leaves the values it can
  represent alone; all halves of integers up to \<open>2^23\<close> in magnitude fit a
  24-bit significand.
\<close>

definition is_rounding :: "(real \<Rightarrow> real) \<Rightarrow> bool" where
  "is_rounding r = (mono r \<and> (\<forall>k::int. \<bar>k\<bar> \<le> 2 ^ 24 \<longrightarrow> r (of_int k / 2) = of_int k / 2))"

definition fp_ok :: "fp_round \<Rightarrow> bool" where
  "fp_ok R = (is_rounding (to_float R) \<and> is_rounding (to_double R))"

definition exact_fp :: fp_round where
  "exact_fp = \<lparr>to_float = (\<lambda>x. x), to_double = (\<lambda>x. x)\<rparr>"

text \<open>Converting a float to \<open>int\<close> truncates towards zero.\<close>

definition float_to_int :: "real \<Rightarrow> int" where
  "float_to_int x = (if 0 \<le> x then \<lfloor>x\<rfloor> else \<lceil>x\<rceil>)"

section \<open>PingpongScreen::draw\<close>

datatype font = Norm

datatype colour = Gray50 | Blue_colour

datatype draw_cmd =
    SetFont font real
  | LineWidth real
  | BeginPath
  | MoveTo real real
  | LineTo real real
  | Stroke colour

text \<open>
  The factors by which the taps' heights shrink from one tap to the next
  (lines 81-82): the parameters are floats, the literals \<open>0.01\<close> and \<open>0.2\<close>
  doubles, so the expression is computed in double precision and the result
  stored in a \<open>float\<close>.
\<close>

definition dim_scale_top :: "fp_round \<Rightarrow> pp_props \<Rightarrow> real" where
  "dim_scale_top R p =
     (let dbl = to_double R
      in to_float R (dbl (dbl (feedback p - dbl 0.01) - dbl (dbl 0.2 * max 0 (dbl (0.5 - tone p))))))"

definition dim_scale_bot :: "fp_round \<Rightarrow> pp_props \<Rightarrow> real" where
  "dim_scale_bot R p =
     (let dbl = to_double R
      in to_float R (dbl (dbl (feedback p - dbl 0.01) - dbl (dbl 0.2 * max 0 (dbl (tone p - 0.5))))))"

text \<open>
  The x position of tap \<open>i\<close> (line 85): \<open>x_scaling * delaytime\<close>, the sum with
  \<open>x_spacing_min\<close>, the product with \<open>i\<close> and the sum with \<open>x_pad\<close> are float
  operations; the result is assigned to the \<open>int\<close> \<open>x_pos\<close>.
\<close>

definition tap_x :: "fp_round \<Rightarrow> int \<Rightarrow> pp_props \<Rightarrow> nat \<Rightarrow> int" where
  "tap_x R xs p i =
     (let fl = to_float R
      in float_to_int (fl (30 + fl (real i * fl (of_int xs + fl (50 * delaytime p))))))"

text \<open>
  The loop of lines 83-97: for tap \<open>i < 20\<close>, a grey bar of the current heights
  and a blue bar scaled by the tap's level, both at \<open>x_pos\<close>; the canvas takes
  float coordinates, so the \<open>int\<close> ones are converted; then each height is
  multiplied by its float factor and truncated back to \<open>int\<close>.
\<close>

function draw_loop ::
  "fp_round \<Rightarrow> int \<Rightarrow> int \<Rightarrow> pp_props \<Rightarrow> nat \<Rightarrow> int \<Rightarrow> int \<Rightarrow> draw_cmd list" where
  "draw_loop R x_spacing_min y_base p i y_height_top y_height_bot =
     (if i < 20 then
        (let fl = to_float R;
             x_pos = tap_x R x_spacing_min p i;
             l = delay_level p i
         in [BeginPath, MoveTo (fl (of_int x_pos)) (fl (of_int (y_base - y_height_top))),
             LineTo (fl (of_int x_pos)) (fl (of_int (y_base + y_height_bot))), Stroke Gray50,
             BeginPath, MoveTo (fl (of_int x_pos)) (fl (of_int y_base - fl (of_int y_height_top * l))),
             LineTo (fl (of_int x_pos)) (fl (of_int y_base + fl (of_int y_height_bot * l))),
             Stroke Blue_colour]
            @ draw_loop R x_spacing_min y_base p (i + 1)
                (float_to_int (fl (of_int y_height_top * dim_scale_top R p)))
                (float_to_int (fl (of_int y_height_bot * dim_scale_bot R p))))
      else [])"
  by pat_completeness auto

termination
  by (relation "measure (\<lambda>(R, xs, yb, p, i, yt, ybt). 20 - i)") auto

declare draw_loop.simps [simp del]

text \<open>
  \<open>draw\<close> (lines 60-100) on a screen of the given width and height; the unused
  locals (\<open>y_pad\<close>, \<open>space\<close>, \<open>line_length\<close>, \<open>feedbackLimit\<close>) issue no command.
\<close>

definition pp_draw :: "fp_round \<Rightarrow> int \<Rightarrow> int \<Rightarrow> pp_props \<Rightarrow> draw_cmd list" where
  "pp_draw R width height p =
     [SetFont Norm 35, LineWidth 6] @ draw_loop R (cdiv width 25) (cdiv height 2) p 0 100 100"

section \<open>Specification of the drawing\<close>

text \<open>
  The heights of tap \<open>i\<close>, obtained by \<open>i\<close> truncated scalings, the eight
  commands that draw one tap, and the coordinates of the points a command list
  visits.
\<close>

primrec tap_height :: "fp_round \<Rightarrow> real \<Rightarrow> int \<Rightarrow> nat \<Rightarrow> int" where
  "tap_height R d y 0 = y"
| "tap_height R d y (Suc n) = float_to_int (to_float R (of_int (tap_height R d y n) * d))"

definition tap_cmds :: "fp_round \<Rightarrow> int \<Rightarrow> real \<Rightarrow> int \<Rightarrow> int \<Rightarrow> real \<Rightarrow> draw_cmd list" where
  "tap_cmds R yb x yt ybt l =
     (let fl = to_float R
      in [BeginPath, MoveTo x (fl (of_int (yb - yt))), LineTo x (fl (of_int (yb + ybt))), Stroke Gray50,
          BeginPath, MoveTo x (fl (of_int yb - fl (of_int yt * l))),
          LineTo x (fl (of_int yb + fl (of_int ybt * l))), Stroke Blue_colour])"

fun cmd_ys :: "draw_cmd \<Rightarrow> real list" where
  "cmd_ys (MoveTo x y) = [y]"
| "cmd_ys (LineTo x y) = [y]"
| "cmd_ys c = []"

fun cmd_xs :: "draw_cmd \<Rightarrow> real list" where
  "cmd_xs (MoveTo x y) = [x]"
| "cmd_xs (LineTo x y) = [x]"
| "cmd_xs c = []"

section \<open>Lemmas\<close>

subsection \<open>Roundings\<close>

lemma rounding_mono: "is_rounding r \<Longrightarrow> x \<le> y \<Longrightarrow> r x \<le> r y"
  by (simp add: is_rounding_def monoD)

lemma rounding_half_exact: "is_rounding r \<Longrightarrow> \<bar>k\<bar> \<le> 2 ^ 24 \<Longrightarrow> r (of_int k / 2) = of_int k / 2"
  by (simp add: is_rounding_def)

lemma rounding_int_exact: "is_rounding r \<Longrightarrow> \<bar>k\<bar> \<le> 2 ^ 23 \<Longrightarrow> r (of_int k) = of_int k"
  using rounding_half_exact [of r "2 * k"] by simp

lemma rounding_consts:
  assumes r: "is_rounding r"
  shows "r 0 = 0" "r (1 / 2) = 1 / 2" "r (- (1 / 2)) = - (1 / 2)" "r 1 = 1" "r (- 1) = - 1"
  using rounding_half_exact [OF r, of 0] rounding_half_exact [OF r, of 1]
    rounding_half_exact [OF r, of "- 1"] rounding_half_exact [OF r, of 2]
    rounding_half_exact [OF r, of "- 2"]
  by simp_all

text \<open>A value between two values a rounding leaves alone is rounded between them.\<close>

lemma rounding_within:
  "is_rounding r \<Longrightarrow> r lo = lo \<Longrightarrow> r hi = hi \<Longrightarrow> lo \<le> x \<Longrightarrow> x \<le> hi \<Longrightarrow> lo \<le> r x \<and> r x \<le> hi"
  by (metis rounding_mono)

lemma rounding_int_within:
  "is_rounding r \<Longrightarrow> \<bar>a\<bar> \<le> 2 ^ 23 \<Longrightarrow> \<bar>b\<bar> \<le> 2 ^ 23 \<Longrightarrow> of_int a \<le> x \<Longrightarrow> x \<le> of_int b \<Longrightarrow>
   of_int a \<le> r x \<and> r x \<le> of_int b"
  by (rule rounding_within) (simp_all add: rounding_int_exact)

lemma rounding_nonneg: "is_rounding r \<Longrightarrow> 0 \<le> x \<Longrightarrow> 0 \<le> r x"
  using rounding_mono [of r 0 x] rounding_consts(1) [of r] by simp

lemma fp_ok_exact [simp]: "fp_ok exact_fp"
  by (simp add: fp_ok_def exact_fp_def is_rounding_def mono_def)

subsection \<open>Truncation\<close>

lemma float_to_int_abs: "\<bar>of_int (float_to_int x)\<bar> \<le> \<bar>x\<bar>"
proof (cases "0 \<le> x")
  case True
  then have "0 \<le> \<lfloor>x\<rfloor>" "of_int \<lfloor>x\<rfloor> \<le> x" by simp_all
  with True show ?thesis by (simp add: float_to_int_def)
next
  case False
  then have "\<lceil>x\<rceil> \<le> 0" "x \<le> of_int \<lceil>x\<rceil>" by simp_all
  with False show ?thesis by (simp add: float_to_int_def)
qed

lemma float_to_int_mono: "x \<le> y \<Longrightarrow> float_to_int x \<le> float_to_int y"
  by (cases "0 \<le> x"; cases "0 \<le> y")
     (auto simp: float_to_int_def intro: floor_mono ceiling_mono order_trans [of _ 0])

text \<open>Scaling a height by a factor of magnitude at most 1, rounding and truncating never enlarges it.\<close>

lemma float_scale_bound:
  assumes r: "is_rounding r" and d: "\<bar>d\<bar> \<le> 1" and y: "\<bar>y\<bar> \<le> 2 ^ 23"
  shows "\<bar>float_to_int (r (of_int y * d))\<bar> \<le> \<bar>y\<bar>"
proof -
  have "\<bar>of_int y * d\<bar> \<le> \<bar>of_int y\<bar>"
    using d by (simp add: abs_mult mult_left_le)
  then have "of_int (- \<bar>y\<bar>) \<le> of_int y * d" "of_int y * d \<le> of_int \<bar>y\<bar>"
    by (simp_all add: abs_le_iff)
  from rounding_int_within [OF r _ _ this] y have "\<bar>r (of_int y * d)\<bar> \<le> of_int \<bar>y\<bar>"
    by (simp add: abs_le_iff)
  with float_to_int_abs [of "r (of_int y * d)"] show ?thesis
    by linarith
qed

lemma tap_height_bound:
  "is_rounding (to_float R) \<Longrightarrow> \<bar>d\<bar> \<le> 1 \<Longrightarrow> \<bar>y\<bar> \<le> 2 ^ 23 \<Longrightarrow> \<bar>tap_height R d y n\<bar> \<le> \<bar>y\<bar>"
  by (induction n) (auto intro: order_trans [OF float_scale_bound])

subsection \<open>The loop, tap by tap\<close>

lemma draw_loop_eq:
  "draw_loop R xs yb p i (tap_height R (dim_scale_top R p) yt i) (tap_height R (dim_scale_bot R p) ybt i) =
     concat (map (\<lambda>j. tap_cmds R yb (to_float R (of_int (tap_x R xs p j)))
                      (tap_height R (dim_scale_top R p) yt j) (tap_height R (dim_scale_bot R p) ybt j)
                      (delay_level p j)) [i..<20])"
proof (induction "20 - i" arbitrary: i)
  case 0
  then show ?case by (simp add: draw_loop.simps [of R xs yb p i])
next
  case (Suc n)
  then have i: "i < 20" and u: "[i..<20] = i # [Suc i..<20]" by (simp_all add: upt_rec)
  from Suc.hyps(1) [of "Suc i"] Suc.hyps(2) i show ?case
    by (simp add: draw_loop.simps [of R xs yb p i] u tap_cmds_def Let_def)
qed

lemma draw_loop_start:
  "draw_loop R xs yb p 0 yt ybt =
     concat (map (\<lambda>j. tap_cmds R yb (to_float R (of_int (tap_x R xs p j)))
                      (tap_height R (dim_scale_top R p) yt j) (tap_height R (dim_scale_bot R p) ybt j)
                      (delay_level p j)) [0..<20])"
  using draw_loop_eq [of R xs yb p 0 yt ybt] by simp

subsection \<open>Bounds\<close>

text \<open>
  The dim factor, computed in double precision from a feedback in \<open>[0, 1]\<close> and
  a rounded tone term in \<open>[-1/2, 1/2]\<close>, and then rounded to a float, lies in
  \<open>[-1, 1]\<close>: every intermediate result stays between two values the roundings
  leave alone.
\<close>

lemma dim_factor_unit:
  assumes f: "is_rounding f" and d: "is_rounding d"
    and fb: "0 \<le> fb" "fb \<le> 1" and t: "- (1 / 2) \<le> t" "t \<le> 1 / 2"
  shows "\<bar>f (d (d (fb - d 0.01) - d (d 0.2 * max 0 t)))\<bar> \<le> 1"
proof -
  note dc = rounding_consts [OF d] and fc = rounding_consts [OF f]
  have c1: "0 \<le> d 0.01 \<and> d 0.01 \<le> 1 / 2"
    using rounding_within [OF d, of 0 "1 / 2" "0.01"] dc by simp
  have a: "- (1 / 2) \<le> d (fb - d 0.01) \<and> d (fb - d 0.01) \<le> 1"
    using rounding_within [OF d, of "- (1 / 2)" 1 "fb - d 0.01"] dc c1 fb by simp
  have c2: "0 \<le> d 0.2 \<and> d 0.2 \<le> 1 / 2"
    using rounding_within [OF d, of 0 "1 / 2" "0.2"] dc by simp
  have m: "0 \<le> max 0 t \<and> max 0 t \<le> 1 / 2"
    using t by simp
  have "d 0.2 * max 0 t \<le> 1 / 2 * 1"
    using c2 m by (intro mult_mono) simp_all
  moreover have "0 \<le> d 0.2 * max 0 t"
    using c2 m by simp
  ultimately have b: "0 \<le> d (d 0.2 * max 0 t) \<and> d (d 0.2 * max 0 t) \<le> 1 / 2"
    using rounding_within [OF d, of 0 "1 / 2" "d 0.2 * max 0 t"] dc by simp
  have e: "- 1 \<le> d (d (fb - d 0.01) - d (d 0.2 * max 0 t)) \<and> d (d (fb - d 0.01) - d (d 0.2 * max 0 t)) \<le> 1"
    using rounding_within [OF d, of "- 1" 1] dc a b by simp
  show ?thesis
    using rounding_within [OF f, of "- 1" 1] fc e by (simp add: abs_le_iff)
qed

lemma dim_scales_unit:
  assumes R: "fp_ok R" and "0 \<le> feedback p" "feedback p \<le> 1" "0 \<le> tone p" "tone p \<le> 1"
  shows "\<bar>dim_scale_top R p\<bar> \<le> 1 \<and> \<bar>dim_scale_bot R p\<bar> \<le> 1"
proof -
  from R have f: "is_rounding (to_float R)" and d: "is_rounding (to_double R)"
    by (simp_all add: fp_ok_def)
  note dc = rounding_consts [OF d]
  have "- (1 / 2) \<le> to_double R (0.5 - tone p) \<and> to_double R (0.5 - tone p) \<le> 1 / 2"
    using rounding_within [OF d, of "- (1 / 2)" "1 / 2" "0.5 - tone p"] dc assms by simp
  moreover have "- (1 / 2) \<le> to_double R (tone p - 0.5) \<and> to_double R (tone p - 0.5) \<le> 1 / 2"
    using rounding_within [OF d, of "- (1 / 2)" "1 / 2" "tone p - 0.5"] dc assms by simp
  ultimately show ?thesis
    using dim_factor_unit [OF f d, of "feedback p" "to_double R (0.5 - tone p)"]
      dim_factor_unit [OF f d, of "feedback p" "to_double R (tone p - 0.5)"] assms
    by (simp add: dim_scale_top_def dim_scale_bot_def Let_def)
qed

text \<open>Every y-coordinate of a tap whose heights are at most 100 and whose level is in \<open>[-1, 1]\<close> lies within 100 of the middle line.\<close>

lemma tap_cmds_band:
  assumes r: "is_rounding (to_float R)" and yt: "\<bar>yt\<bar> \<le> 100" and ybt: "\<bar>ybt\<bar> \<le> 100"
    and l: "\<bar>l\<bar> \<le> 1" and yb: "\<bar>yb\<bar> \<le> 2 ^ 22"
    and y: "y \<in> set (concat (map cmd_ys (tap_cmds R yb x yt ybt l)))"
  shows "\<bar>y - of_int yb\<bar> \<le> 100"
proof -
  let ?fl = "to_float R"
  have near: "\<bar>?fl z - of_int yb\<bar> \<le> 100" if "of_int (yb - 100) \<le> z" "z \<le> of_int (yb + 100)" for z
    using rounding_int_within [OF r _ _ that] yb by (simp add: abs_le_iff)
  have scaled: "- 100 \<le> ?fl (of_int v * l) \<and> ?fl (of_int v * l) \<le> 100" if "\<bar>v\<bar> \<le> 100" for v
  proof -
    have "\<bar>of_int v * l\<bar> \<le> 100"
      using that l by (simp add: abs_mult mult_le_one order_trans [OF mult_left_le])
    then show ?thesis
      using rounding_int_within [OF r, of "- 100" 100 "of_int v * l"] by (simp add: abs_le_iff)
  qed
  from scaled [OF yt] scaled [OF ybt] yt ybt y show ?thesis
    by (auto simp: tap_cmds_def Let_def intro!: near)
qed

lemma abs_cdiv_le: "\<bar>cdiv a b\<bar> \<le> \<bar>a\<bar>"
proof -
  have q: "\<bar>a\<bar> div \<bar>b\<bar> \<le> \<bar>a\<bar>"
    by (cases "b = 0") (simp_all add: zdiv_mono2 [of "\<bar>a\<bar>" 1 "\<bar>b\<bar>", simplified])
  have "0 \<le> \<bar>a\<bar> div \<bar>b\<bar>"
    by (simp add: pos_imp_zdiv_nonneg_iff div_int_pos_iff)
  with q show ?thesis
    by (auto simp: cdiv_def abs_mult abs_sgn_eq)
qed

lemma draw_band:
  assumes R: "fp_ok R" and "0 \<le> feedback p" "feedback p \<le> 1" "0 \<le> tone p" "tone p \<le> 1"
    and lv: "\<forall>i<20. \<bar>delay_level p i\<bar> \<le> 1" and h: "\<bar>h\<bar> \<le> 2 ^ 22"
  shows "\<forall>y \<in> set (concat (map cmd_ys (pp_draw R w h p))). \<bar>y - of_int (cdiv h 2)\<bar> \<le> 100"
proof -
  from R have f: "is_rounding (to_float R)"
    by (simp add: fp_ok_def)
  from dim_scales_unit [OF assms(1-5)] have dt: "\<bar>dim_scale_top R p\<bar> \<le> 1" and db: "\<bar>dim_scale_bot R p\<bar> \<le> 1"
    by simp_all
  have "\<And>i. \<bar>tap_height R (dim_scale_top R p) 100 i\<bar> \<le> 100" "\<And>i. \<bar>tap_height R (dim_scale_bot R p) 100 i\<bar> \<le> 100"
    using tap_height_bound [OF f dt, of 100] tap_height_bound [OF f db, of 100] by simp_all
  moreover have "\<bar>cdiv h 2\<bar> \<le> 2 ^ 22"
    using abs_cdiv_le [of h 2] h by linarith
  ultimately show ?thesis
    using lv by (fastforce simp: pp_draw_def draw_loop_start intro: tap_cmds_band [OF f])
qed

text \<open>With a non-negative spacing and delay time, the taps' x positions grow with the tap index.\<close>

lemma tap_x_mono:
  assumes f: "is_rounding (to_float R)" and xs: "0 \<le> xs" and d: "0 \<le> delaytime p" and ij: "i \<le> j"
  shows "tap_x R xs p i \<le> tap_x R xs p j"
proof -
  let ?fl = "to_float R"
  have "0 \<le> ?fl (50 * delaytime p)"
    using d by (simp add: rounding_nonneg [OF f])
  then have c: "0 \<le> ?fl (of_int xs + ?fl (50 * delaytime p))"
    using xs by (simp add: rounding_nonneg [OF f])
  have "real i * ?fl (of_int xs + ?fl (50 * delaytime p)) \<le> real j * ?fl (of_int xs + ?fl (50 * delaytime p))"
    using ij c by (simp add: mult_right_mono)
  then show ?thesis
    unfolding tap_x_def Let_def
    by (intro float_to_int_mono rounding_mono [OF f] add_left_mono)
qed

lemma concat_map_concat: "concat (map f (concat xss)) = concat (map (\<lambda>xs. concat (map f xs)) xss)"
  by (induction xss) simp_all

lemma sorted_concat_taps:
  "mono f \<Longrightarrow> sorted (concat (map (\<lambda>i. [f i, f i, f i, f i]) [0..<n]))"
proof (induction n)
  case 0
  then show ?case by simp
next
  case (Suc n)
  then show ?case
    by (auto simp: sorted_append monoD)
qed

section \<open>Properties of the drawing\<close>

text \<open>
  C27 [pp_draw_band_after_events]: for every rounding of the float and double
  arithmetic that is monotone and exact on small half-integers, as long as the
  feedback and tone steps keep their parameters within \<open>[0, 1]\<close>, after any
  sequence of rotary and key events from parameters in that range, with tap
  levels within \<open>[-1, 1]\<close> and a screen at most \<open>2^22\<close> pixels high, every
  point \<open>draw\<close> visits lies within 100 pixels of the middle line
  \<open>height / 2\<close>: the tap heights never grow.
\<close>

theorem pp_draw_band_after_events:
  assumes "fp_ok R" "keeps_unit (step_feedback S)" "keeps_unit (step_tone S)"
    and "0 \<le> feedback p" "feedback p \<le> 1" "0 \<le> tone p" "tone p \<le> 1"
    and "\<forall>i<20. \<bar>delay_level p i\<bar> \<le> 1" and "\<bar>h\<bar> \<le> 2 ^ 22"
  shows "\<forall>y \<in> set (concat (map cmd_ys (pp_draw R w h (pp_run S es p)))). \<bar>y - of_int (cdiv h 2)\<bar> \<le> 100"
proof -
  from pp_run_unit [OF assms(2,3)] assms(4-7) have
    "0 \<le> feedback (pp_run S es p)" "feedback (pp_run S es p) \<le> 1"
    "0 \<le> tone (pp_run S es p)" "tone (pp_run S es p) \<le> 1"
    "delay_level (pp_run S es p) = delay_level p" by auto
  with assms(1,8,9) show ?thesis by (intro draw_band) simp_all
qed

theorem pp_draw_band_after_events_witness:
  "list_all (\<lambda>y. \<bar>y - of_int (cdiv 240 2)\<bar> \<le> 100) (concat (map cmd_ys (pp_draw exact_fp 320 240 (pp_run \<lparr>step_delaytime = (\<lambda>c v. v + of_int c / 100),
      step_feedback = (\<lambda>c v. min 1 (max 0 (v + of_int c / 100))),
      step_tone = (\<lambda>c v. min 1 (max 0 (v + of_int c / 100))), step_spread = (\<lambda>c v. v)\<rparr>
      [Rotary \<lparr>rot = Green, clicks = 70\<rparr>, Keypress red_click, Rotary \<lparr>rot = White, clicks = -3\<rparr>] \<lparr>delaytime = 0.5, feedback = 0.5, tone = 0.5, spread = 0.5, bpm_follow = False,
      delay_level = (\<lambda>i. 0.5)\<rparr>))))"
  using pp_draw_band_after_events [of exact_fp "\<lparr>step_delaytime = (\<lambda>c v. v + of_int c / 100),
      step_feedback = (\<lambda>c v. min 1 (max 0 (v + of_int c / 100))),
      step_tone = (\<lambda>c v. min 1 (max 0 (v + of_int c / 100))), step_spread = (\<lambda>c v. v)\<rparr>" "\<lparr>delaytime = 0.5, feedback = 0.5, tone = 0.5, spread = 0.5, bpm_follow = False,
      delay_level = (\<lambda>i. 0.5)\<rparr>" 240 320 "[Rotary \<lparr>rot = Green, clicks = 70\<rparr>, Keypress red_click, Rotary \<lparr>rot = White, clicks = -3\<rparr>]"]
  by (simp add: keeps_unit_def list_all_iff)

text \<open>
  C28 [pp_draw_left_to_right]: for every monotone rounding and a non-negative
  delay time and width, the taps are drawn from left to right: the
  x-coordinates of the points \<open>draw\<close> visits never decrease.
\<close>

theorem pp_draw_left_to_right:
  "fp_ok R \<Longrightarrow> 0 \<le> delaytime p \<Longrightarrow> 0 \<le> w \<Longrightarrow> sorted (concat (map cmd_xs (pp_draw R w h p)))"
proof -
  assume R: "fp_ok R" and d: "0 \<le> delaytime p" and w: "0 \<le> w"
  from R have f: "is_rounding (to_float R)"
    by (simp add: fp_ok_def)
  have "0 \<le> cdiv w 25" using w by (simp add: cdiv_nonneg)
  with d have "mono (\<lambda>i. to_float R (of_int (tap_x R (cdiv w 25) p i)))"
    by (auto intro!: monoI rounding_mono [OF f] tap_x_mono [OF f])
  from sorted_concat_taps [OF this, of 20] show ?thesis
    by (simp add: pp_draw_def draw_loop_start tap_cmds_def Let_def concat_map_concat comp_def)
qed

theorem pp_draw_left_to_right_witness:
  "sorted (concat (map cmd_xs (pp_draw exact_fp 320 240 \<lparr>delaytime = 0.5, feedback = 0.5, tone = 0.5, spread = 0.5, bpm_follow = False,
      delay_level = (\<lambda>i. 0.5)\<rparr>)))"
  using pp_draw_left_to_right [of exact_fp "\<lparr>delaytime = 0.5, feedback = 0.5, tone = 0.5, spread = 0.5, bpm_follow = False,
      delay_level = (\<lambda>i. 0.5)\<rparr>" 320 240] by simp

end
