(* ===== verification/Spec2Isabelle.thy ===== *)
theory Spec2Isabelle
  imports SoundFileMachine PingpongDraw
begin

text \<open>
  \<^bold>\<open>A verification library for the OTTO sound-file codec and ping-pong
  screen.\<close>

  \<^bold>\<open>The program.\<close>
  \<^verbatim>\<open>src/src/util/soundfile.cpp\<close> reads and writes WAVE files
  through \<open>ByteFile\<close>, a byte stream with a cursor. A file is a RIFF
  container (\<open>Header\<close>): a tag, a size and a format tag, then a run of
  chunks, each a tag, a size and a payload. \<open>SoundFile::read_file\<close> reads
  the header, scans its children (\<open>for_chunks_in_range\<close>), promotes the
  \<open>''fmt ''\<close> and \<open>''data''\<close> children to
  \<open>WAVE_fmt\<close> and \<open>WAVE_data\<close> and re-reads them;
  \<open>WAVE_fmt\<close> publishes the channel count and sample rate,
  \<open>WAVE_data\<close> the audio offset. \<open>SoundFile::write_file\<close>
  assembles a header with an fmt chunk, the embedder's custom chunks and a data chunk
  and writes it. \<open>seek\<close>, \<open>position\<close> and
  \<open>length\<close> address the samples after the audio offset.
  \<^verbatim>\<open>src/src/engines/fx/pingpong/pingpong.cpp\<close> is the screen of
  a delay effect: rotaries step four parameters, the rotary clicks toggle tempo
  following, and \<open>draw\<close> renders the delay taps; \<open>process\<close>
  forwards audio to a Faust DSP.

  \<^bold>\<open>Theories.\<close>
  \<^item> \<open>Prelude\<close>: bytes (\<open>8 word\<close>), little-endian fields
    (\<open>enc_field\<close>, \<open>dec_field\<close>, for \<open>bytes<N>\<close>
    and \<open>as_u()\<close>), ASCII tags, C++'s truncating division
    \<open>cdiv\<close>, the byte window \<open>window\<close> and in-place write
    \<open>overwrite\<close>, the error kinds (one per \<open>throw\<close>, and
    \<open>MalformedContainer\<close>), and the exception types \<open>exc\<close> and
    \<open>outcome\<close>: an error keeps the state reached when it was thrown.
  \<^item> \<open>ByteFile\<close>: the record \<open>bytefile\<close> (contents,
    cursor) and \<open>bf_seek\<close>, \<open>bf_position\<close>,
    \<open>bf_size\<close>, \<open>read_bytes\<close>, \<open>write_bytes\<close>. Its
    header is not among the sources; it is modelled from spec 4.1: reads past the end
    give zeros, writes past the end extend the file.
  \<^item> \<open>Chunk\<close>: \<open>chunk\<close> (tag, size, offset),
    \<open>chunk_read\<close>/\<open>chunk_write\<close>
    (\<open>Chunk::read\<close>/\<open>write\<close>, spec 4.2),
    \<open>scan_chunks\<close> (\<open>for_chunks_in_range\<close>, spec 4.3; a
    \<open>function\<close> terminating on the distance to the end), and
    \<open>header_read\<close>/\<open>header_write\<close>
    (\<open>Header::read_fields\<close>/\<open>write_fields\<close>, soundfile.cpp
    9-30) and the default header \<open>header_default\<close> (line 10), with the on-disk layout \<open>layout\<close>,
    \<open>container_bytes\<close> as its specification.
  \<^item> \<open>WaveChunks\<close>: the sound file's state \<open>soundfile\<close>
    (the byte file extended by \<open>info\<close>, \<open>sample_size\<close>,
    \<open>audioOffset\<close>), \<open>fmt_read_fields\<close>,
    \<open>fmt_values\<close>, \<open>fmt_write_fields\<close> (lines 32-84),
    \<open>data_read_fields\<close>, \<open>data_write_fields\<close> (86-98), the
    constructors \<open>fmt_chunk_new\<close>, \<open>fmt_of_chunk\<close>,
    \<open>data_chunk_new\<close>, \<open>data_of_chunk\<close> (33-34, 87-88), the
    promotion \<open>promote\<close> (128-132) and the virtual dispatch
    \<open>obj_read\<close>/\<open>obj_write\<close>. The embedder's extension points
    are the record \<open>hooks\<close>, a parameter of every operation that calls
    them; \<open>no_hooks\<close> is an embedder without custom chunks. The container
    kind \<open>file_type\<close> has the spec's three cases, \<open>Unknown\<close> included.
  \<^item> \<open>SoundFile\<close>: \<open>read_file\<close> (106-150, with
    \<open>select_type\<close> and \<open>read_chunks\<close>),
    \<open>write_file\<close> (152-176), \<open>sf_seek\<close>,
    \<open>sf_position\<close>, \<open>sf_length\<close> (178-194), and the
    specifications \<open>wave_image\<close> of a WAVE file, \<open>written_header\<close> of
    the header \<open>write_file\<close> writes and \<open>custom_bytes\<close> of custom chunks.
  \<^item> \<open>SoundFileMachine\<close>: the object as its clients drive it: the calls
    \<open>sf_op\<close>, one call \<open>sf_apply\<close>, and a sequence of calls
    \<open>sf_run\<close> that stops at the first exception with the state at the throw.
  \<^item> \<open>Pingpong\<close>: the engine \<open>pp_engine\<close> and its constructor
    \<open>pp_new\<close> (lines 23-26), the screen's handling of an event on the engine's
    own parameters \<open>pp_screen_event\<close> (15-21), \<open>pp_process\<close> (29-32,
    the Faust DSP a parameter reading the current parameters), the parameters
    \<open>pp_props\<close>, \<open>pp_rotary\<close>,
    \<open>pp_keypress\<close> (lines 36-58) and event sequences \<open>pp_run\<close>.
  \<^item> \<open>PingpongDraw\<close>: \<open>pp_draw\<close> (60-100) as the list of canvas commands
    it issues, its loop \<open>draw_loop\<close> a \<open>function\<close> on the tap index, the
    dim factors \<open>dim_scale_top\<close>/\<open>dim_scale_bot\<close> (81-82) and the tap
    position \<open>tap_x\<close> (85).  Every float and double operation is the
    rounding of its exact result, as IEEE 754 defines it; the two roundings are a
    parameter \<open>fp_round\<close>, and \<open>fp_ok\<close> asks of them what
    round-to-nearest guarantees: monotone, and exact on the half-integers up to
    \<open>2^23\<close>.

  \<^bold>\<open>What is proved.\<close> The header scan tiles its range, rejects a
  child crossing the container's end, and
  \<open>Header::read\<close> reads back what \<open>Header::write\<close> wrote
  (\<open>Chunk\<close>). The fmt chunk reads back what it writes, rejects non-float
  and non-32-bit formats (\<open>WaveChunks\<close>). \<open>read_file\<close> of a
  well-formed WAVE image publishes its format and locates its samples, also
  past a chunk of unknown type; every error of
  \<open>read_file\<close> and \<open>write_file\<close> is a value of the model;
  \<open>write_file\<close>'s bytes are computed exactly and leave the cursor at the
  audio offset; an embedder's
  custom chunks are written between the fmt and the data chunk; on a file of
  unknown type \<open>write_file\<close> writes nothing and reports no error; a
  read rejected for its bit depth leaves the object changed; sample seek
  and position agree, and position is never negative; an embedder's adoption hook sees
  the fmt and data chunks too; a declared 32-bit sample width keeps spec 8's
  four stereo frames from reporting length 4 (\<open>SoundFile\<close>). For every
  admissible rounding, the drawing stays within a band around the middle line
  after any sequence of input events and runs left to right
  (\<open>PingpongDraw\<close>); tempo following toggles once per click, and a key is
  handled exactly when it is a click (\<open>Pingpong\<close>). Composing the two
  operations, \<open>read_file\<close> of the bytes \<open>write_file\<close> wrote finds an empty
  container, and reading a WAVE file and writing it back changes exactly its RIFF
  and fmt size fields (\<open>SoundFile\<close>); below, spec 8's
  scenario, run as a sequence of client calls, succeeds with the expected header
  but reports 8 samples, not 4 frames.

  \<^bold>\<open>Where the code departs from the spec.\<close>
  \<open>write_file\<close> writes a RIFF size of 0 and back-patches nothing, so a
  reader sees an empty container; \<open>WAVE_fmt::read_fields\<close>
  publishes channels and rate before its bit-depth check throws;
  \<open>read_file\<close> ends at the first sample, not at byte 0; a cursor less than
  one sample before the audio offset gives position 0 without a reseek; the adoption
  hook is consulted for the fmt and data chunks too; the data size is computed from
  the audio offset before the write; \<open>bitsPerSample = 8 * sample_size\<close>
  while \<open>length\<close> divides by \<open>sample_size\<close>, so spec 8's
  stereo scenario cannot report 4 frames. Outside the spec: \<open>write_file\<close>
  of a file whose type is still unknown silently writes nothing, and a failed
  read leaves the object typed WAVE with the rejected file's format.

  \<^bold>\<open>Bounds and loops.\<close> There is no fuel: the chunk scan terminates
  on \<open>end - position\<close> (a chunk is at least 8 bytes),
  \<open>read_chunks\<close> recurses on the children, the drawing loop on \<open>20 -
  i\<close>, a call sequence on its list. Fields keep
  their widths (16- and 32-bit words); \<open>Position\<close> and \<open>int\<close>
  fields are unbounded integers (a 32-bit sample rate is published as its
  two's-complement \<open>sint\<close>, as the assignment to an \<open>int\<close> does), so
  \<open>int\<close> overflow in
  \<open>blockAlign\<close> (products above \<open>2^31\<close>) and in the position
  arithmetic is outside the model.  In \<open>draw\<close> the roundings are asked to be
  exact only on half-integers up to \<open>2^23\<close> (what a 24-bit significand holds),
  which covers every integer coordinate of a screen at most \<open>2^22\<close> pixels
  high with bars of at most 100 pixels, and the factors \<open>0\<close>, \<open>1/2\<close>
  and \<open>1\<close> between which the dim factors' intermediate results are kept.

  \<^bold>\<open>Not modelled.\<close> The Faust-generated DSP itself (not among the
  sources; \<open>process\<close> only forwards to it, so it is a parameter) and the
  initial parameter values (declared in \<^verbatim>\<open>pingpong.hpp\<close>); the default
  state of a new \<open>SoundFile\<close> and \<open>create_file\<close> (declared in its
  header, outside the sources: \<open>create_file\<close> is taken from specs 4.6 and 8
  as a new WAVE file with no payload offset, and no property rests on it); the
  refresh of linked
  tap levels (\<open>refresh_links\<close> belongs to the property library, outside the
  sources: the levels are the values it leaves); the IEEE rounding functions
  themselves (the library has no binary32 or binary64 type, so the roundings are a
  parameter, characterised by the properties the proofs use; a theorem about
  \<open>draw\<close> holds for every rounding with them); logging
  (\<open>LOG_F\<close>: output only, it changes no state the code reads back; its
  one notable behaviour, the log lines after the \<open>break\<close> of
  \<open>read_file\<close> that never run, is recorded as a finding); stream error
  states (\<open>fstream.good()\<close> is only logged, and the byte file of spec 4.1
  never fails) and file paths (only logged).
\<close>

section \<open>A client's call sequence\<close>

text \<open>
  C12 [spec_scenario_calls]: the concrete scenario of spec 8 as a client runs it on
  a new stereo 44.1 kHz WAVE object: \<open>write_file\<close> to lay out the header, the 32
  bytes of 4 stereo float frames appended at the audio offset, \<open>write_file\<close>
  again to record the data size, then \<open>read_file\<close>.  Every call succeeds; the
  file starts with RIFF and WAVE, the fmt chunk declares 32 bits per sample, the
  data size is 32 and the frames follow the header; but \<open>length()\<close> is 8, the
  number of 4-byte channel samples, where spec 8 expects 4 frames.
\<close>

theorem spec_scenario_calls:
  assumes b: "length bs = 32"
  shows "\<exists>s. sf_run (no_hooks :: 'c hooks) [WriteFile, WriteSamples bs, WriteFile, ReadFile]
               \<lparr>contents = [], cursor = 0, info = \<lparr>ftype = WAVE, channels = 2, samplerate = 44100\<rparr>,
                 sample_size = 4, audioOffset = 0\<rparr> = Inr s \<and>
           window 0 4 (contents s) = tag ''RIFF'' \<and> window 8 4 (contents s) = tag ''WAVE'' \<and>
           (dec_field (window 34 2 (contents s)) :: 16 word) = 32 \<and>
           (dec_field (window 40 4 (contents s)) :: 32 word) = 32 \<and>
           drop 44 (contents s) = bs \<and> sf_length s = 8"
proof -
  let ?s0 = "\<lparr>contents = [], cursor = 0, info = \<lparr>ftype = WAVE, channels = 2, samplerate = 44100\<rparr>,
                 sample_size = 4, audioOffset = 0\<rparr>"
  let ?fm = "fmt_values ?s0"
  let ?s1 = "?s0\<lparr>contents := written_header ?fm 0, cursor := 44, audioOffset := 44\<rparr>"
  have w1: "write_file (no_hooks :: 'c hooks) ?s0 = Inr ?s1"
    using write_file_no_hooks [of ?s0] by (simp add: bf_size_def overwrite_def)
  let ?s2 = "?s1\<lparr>contents := written_header ?fm 0 @ bs, cursor := 76\<rparr>"
  have w2: "write_bytes bs ?s1 = ?s2"
    using b by (simp add: write_bytes_eq overwrite_def)
  let ?s3 = "?s2\<lparr>contents := written_header ?fm 32 @ bs, cursor := 44, audioOffset := 44\<rparr>"
  have w3: "write_file (no_hooks :: 'c hooks) ?s2 = Inr ?s3"
    using write_file_no_hooks [of ?s2] b by (simp add: bf_size_def overwrite_prefix fmt_values_def)
  let ?s4 = "?s3\<lparr>cursor := 44, info := (info ?s3)\<lparr>ftype := WAVE\<rparr>\<rparr>"
  have r4: "read_file (no_hooks :: 'c hooks) ?s3 = Inr ?s4"
    using read_file_written_header [of ?s3 ?fm 32 bs] by simp
  have run: "sf_run (no_hooks :: 'c hooks) [WriteFile, WriteSamples bs, WriteFile, ReadFile] ?s0 = Inr ?s4"
    by (simp only: sf_run.simps sf_apply.simps w1 w2 w3 r4 sum.case)
  have bits: "window 34 2 (written_header ?fm 32 @ bs) = enc_field 2 (32 :: 16 word)"
    by (simp add: window_take_drop written_header_def fmt_bytes_def fmt_values_def tag_def)
  have c: "window 0 4 (contents ?s4) = tag ''RIFF'' \<and> window 8 4 (contents ?s4) = tag ''WAVE'' \<and>
           (dec_field (window 34 2 (contents ?s4)) :: 16 word) = 32 \<and>
           (dec_field (window 40 4 (contents ?s4)) :: 32 word) = 32 \<and>
           drop 44 (contents ?s4) = bs \<and> sf_length ?s4 = 8"
    using bits b by (simp add: window_take_drop written_header_def tag_def sf_length_def bf_size_def cdiv_def)
  from run c show ?thesis
    by blast
qed


theorem spec_scenario_calls_witness:
  "\<exists>s. sf_run (no_hooks :: unit hooks) [WriteFile, WriteSamples (replicate 32 0), WriteFile, ReadFile]
        \<lparr>contents = [], cursor = 0, info = \<lparr>ftype = WAVE, channels = 2, samplerate = 44100\<rparr>,
         sample_size = 4, audioOffset = 0\<rparr> = Inr s \<and>
     window 0 4 (contents s) = tag ''RIFF'' \<and> window 8 4 (contents s) = tag ''WAVE'' \<and>
     (dec_field (window 34 2 (contents s)) :: 16 word) = 32 \<and>
     (dec_field (window 40 4 (contents s)) :: 32 word) = 32 \<and>
     drop 44 (contents s) = replicate 32 0 \<and> sf_length s = 8"
  by (rule spec_scenario_calls) simp

end
